theory Spec2Isabelle
  imports Complex_Main
begin

section \<open>The Dwight source of beancount-import\<close>

text \<open>
  A shallow embedding of \<^verbatim>\<open>beancount_import/source/dwight.py\<close>: the two CSV loaders,
  the key functions, the synthesis of import results and \<^verbatim>\<open>DwightSource.prepare\<close>.

  What the module takes from libraries is a parameter of the model or a plain value:
  \<^item> a \<^verbatim>\<open>datetime.date\<close> is its proleptic Gregorian ordinal (\<^verbatim>\<open>date.toordinal()\<close>), an
    integer between 1 and 3652059; Python compares and shifts dates through it;
  \<^item> a finite \<^verbatim>\<open>Decimal\<close> is the rational number it denotes, and \<^verbatim>\<open>==\<close> on finite
    decimals compares these values; the infinities and the two kinds of not-a-number
    are values of their own. Inside a key a not-a-number equals itself, as the same
    object does when Python compares tuples; two different not-a-number objects, which
    Python keeps apart, are one value here;
  \<^item> beancount's number parser \<^verbatim>\<open>D\<close>, the unary minus of \<^verbatim>\<open>Decimal\<close>, \<^verbatim>\<open>strptime\<close> with
    the format \<^verbatim>\<open>%Y-%m-%d\<close> and \<^verbatim>\<open>os.path.abspath\<close> are the fields of a record
    \<open>lib\<close>; a function returns \<open>None\<close> where the Python function raises;
  \<^item> an opened CSV file is the list of records \<^verbatim>\<open>csv.reader\<close> yields for it, each a
    list of strings.
\<close>

subsection \<open>Values\<close>

type_synonym date = int

text \<open>
  A \<^verbatim>\<open>Decimal\<close>: a finite number, an infinity with its sign (\<open>True\<close> for the negative
  one), a quiet not-a-number or a signalling one.
\<close>

datatype Decimal = Finite rat | Infinite bool | NaN | SNaN

definition ZERO :: Decimal where
  "ZERO = Finite 0"

definition MAXORDINAL :: int where
  "MAXORDINAL = 3652059"

record Amount =
  number :: Decimal
  currency :: string

text \<open>
  The library functions. \<open>neg\<close> is the unary minus of \<^verbatim>\<open>Decimal\<close> in the decimal
  context in force: it rounds its result to the precision of the context (28
  significant digits unless changed), and it raises on a signalling not-a-number and
  on a result beyond the exponent range.
\<close>

record lib =
  D :: "string \<Rightarrow> Decimal option"
  neg :: "Decimal \<Rightarrow> Decimal option"
  strptime :: "string \<Rightarrow> date option"
  abspath :: "string \<Rightarrow> string"

text \<open>
  The exceptions the module can raise. \<open>FormatError\<close> is
  \<^verbatim>\<open>RuntimeError('CSV file has incorrect format', filename)\<close> with the exception it was
  raised from; \<open>FieldNamesError\<close> is the \<^verbatim>\<open>RuntimeError\<close> of the header check with the
  actual field names; \<open>InvalidDate\<close> is \<^verbatim>\<open>RuntimeError('Invalid date: %r')\<close> with the raw
  value; \<open>ValueError\<close> is what \<^verbatim>\<open>D\<close> raises on the string given; \<open>DecimalException\<close>
  is what an operation on decimals raises, \<^verbatim>\<open>InvalidOperation\<close> or \<^verbatim>\<open>Overflow\<close>;
  \<open>IndexError\<close> and \<open>TypeError\<close> come from subscripting an empty string and
  \<^verbatim>\<open>None\<close>; \<open>OverflowError\<close> from shifting a date beyond \<^verbatim>\<open>date.max\<close>.
\<close>

datatype error =
    FormatError string error
  | FieldNamesError "string list option"
  | InvalidDate string
  | ValueError string
  | DecimalException
  | IndexError
  | TypeError
  | OverflowError

text \<open>
  \<^verbatim>\<open>number == ZERO\<close>: a finite number is compared by its value, an infinity and a
  quiet not-a-number are unequal to zero, and comparing a signalling not-a-number
  raises \<^verbatim>\<open>InvalidOperation\<close>.
\<close>

fun eq_ZERO :: "Decimal \<Rightarrow> error + bool" where
  "eq_ZERO (Finite v) = Inr (v = 0)"
| "eq_ZERO (Infinite negative) = Inr False"
| "eq_ZERO NaN = Inr False"
| "eq_ZERO SNaN = Inl DecimalException"

text \<open>\<^verbatim>\<open>Amount.__neg__\<close>: \<^verbatim>\<open>Amount(-self.number, self.currency)\<close>.\<close>

definition neg_amount :: "lib \<Rightarrow> Amount \<Rightarrow> error + Amount" where
  "neg_amount py a =
     (case neg py (number a) of
        None \<Rightarrow> Inl DecimalException
      | Some negated \<Rightarrow> Inr \<lparr>number = negated, currency = currency a\<rparr>)"


subsection \<open>Raw entries\<close>

text \<open>
  \<^verbatim>\<open>RawBalance\<close> and \<^verbatim>\<open>DwightEntry\<close> are named tuples; \<^verbatim>\<open>DwightEntry\<close> has the fields of
  \<^verbatim>\<open>RawBalance\<close> and \<^verbatim>\<open>source_desc\<close>, and the code reads both through the same field
  names, so the second extends the first.
\<close>

record RawBalance =
  account :: string
  date :: date
  amount :: Amount
  filename :: string
  line :: nat

record DwightEntry = RawBalance +
  source_desc :: string

record info =
  info_type :: string
  info_filename :: string
  info_line :: nat

definition get_info :: "'a RawBalance_scheme \<Rightarrow> info" where
  "get_info raw_entry =
     \<lparr>info_type = ''text/csv'', info_filename = filename raw_entry, info_line = line raw_entry\<rparr>"

subsection \<open>Reading the CSV file\<close>

definition expected_field_names :: "string list" where
  "expected_field_names =
     [''Date'', ''Description'', ''Category'', ''Cost'', ''Currency'', ''Zhuohan Li'', ''Zhanghao Wu'']"

text \<open>
  \<^verbatim>\<open>csv.DictReader\<close>: the first record of the file is \<^verbatim>\<open>reader.fieldnames\<close> (\<^verbatim>\<open>None\<close> for
  an empty file); of the records after it the empty ones are skipped, and
  \<^verbatim>\<open>enumerate\<close> numbers the others from 0. The loaders go on to the rows only when the
  field names are the seven expected ones, so a row with seven fields or more has a
  string under each name, and a shorter row has \<^verbatim>\<open>None\<close> under the names it does not
  reach.
\<close>

definition fieldnames :: "string list list \<Rightarrow> string list option" where
  "fieldnames reader = (case reader of [] \<Rightarrow> None | header # _ \<Rightarrow> Some header)"

definition DictReader_rows :: "string list list \<Rightarrow> string list list" where
  "DictReader_rows reader = filter (\<lambda>row. row \<noteq> []) (drop 1 reader)"

text \<open>
  Lines 175-176 and 226-227:
  \<^verbatim>\<open>sgn = s[0]; number = D(s) if sgn != '-' else -D(s[1:])\<close>.
\<close>

fun signed_number :: "lib \<Rightarrow> string \<Rightarrow> error + Decimal" where
  "signed_number py [] = Inl IndexError"
| "signed_number py (sgn0 # rest) =
     (if sgn0 \<noteq> CHR ''-''
      then (case D py (sgn0 # rest) of None \<Rightarrow> Inl (ValueError (sgn0 # rest)) | Some n \<Rightarrow> Inr n)
      else (case D py rest of
              None \<Rightarrow> Inl (ValueError rest)
            | Some n \<Rightarrow>
                (case neg py n of None \<Rightarrow> Inl DecimalException | Some negated \<Rightarrow> Inr negated)))"

subsection \<open>load_transactions\<close>

text \<open>
  The body of the loop of \<^verbatim>\<open>load_transactions\<close> on one row: \<open>Inr None\<close> is
  \<^verbatim>\<open>continue\<close>, \<open>Inr (Some e)\<close> the entry appended. On a row with fewer than seven
  fields \<^verbatim>\<open>row['Zhanghao Wu']\<close> is \<^verbatim>\<open>None\<close> and subscripting it raises.
\<close>

fun transaction_of_row ::
  "lib \<Rightarrow> string \<Rightarrow> string \<Rightarrow> nat \<Rightarrow> string list \<Rightarrow> error + DwightEntry option" where
  "transaction_of_row py fname cur line_i
       (c_date # c_description # c_category # c_cost # c_currency # c_zhuohan # c_zhanghao # restkey) =
     (case signed_number py c_zhanghao of
        Inl e \<Rightarrow> Inl e
      | Inr n \<Rightarrow>
          (case eq_ZERO n of
             Inl e \<Rightarrow> Inl e
           | Inr is_zero \<Rightarrow>
               if is_zero \<or> c_description = ''Total balance'' then Inr None
               else (case strptime py c_date of
                       None \<Rightarrow> Inl (InvalidDate c_date)
                     | Some d \<Rightarrow>
                         Inr (Some \<lparr>account = ''Zhuohan Li'', date = d,
                                    amount = \<lparr>number = n, currency = cur\<rparr>,
                                    filename = fname, line = line_i + 1,
                                    source_desc = c_description\<rparr>))))"
| "transaction_of_row py fname cur line_i short_row = Inl TypeError"

fun transactions_loop ::
  "lib \<Rightarrow> string \<Rightarrow> string \<Rightarrow> (nat \<times> string list) list \<Rightarrow> DwightEntry list
     \<Rightarrow> error + DwightEntry list" where
  "transactions_loop py fname cur [] entries = Inr entries"
| "transactions_loop py fname cur ((line_i, row) # rows) entries =
     (case transaction_of_row py fname cur line_i row of
        Inl e \<Rightarrow> Inl e
      | Inr None \<Rightarrow> transactions_loop py fname cur rows entries
      | Inr (Some entry) \<Rightarrow> transactions_loop py fname cur rows (entries @ [entry]))"

text \<open>
  The \<^verbatim>\<open>try\<close> block of \<^verbatim>\<open>load_transactions\<close>, with the path already made absolute.
  \<^verbatim>\<open>list.sort\<close> is stable, as \<open>sort_key\<close> is.
\<close>

definition load_transactions_try ::
  "lib \<Rightarrow> string \<Rightarrow> string \<Rightarrow> string list list \<Rightarrow> error + DwightEntry list" where
  "load_transactions_try py fname cur reader =
     (if fieldnames reader \<noteq> Some expected_field_names
      then Inl (FieldNamesError (fieldnames reader))
      else (case transactions_loop py fname cur (enumerate 0 (DictReader_rows reader)) [] of
              Inl e \<Rightarrow> Inl e
            | Inr entries \<Rightarrow> Inr (sort_key date (rev entries))))"

text \<open>
  \<^verbatim>\<open>load_transactions(filename, currency)\<close> on the file whose records are \<open>reader\<close>:
  every exception of the block is raised again as a \<open>FormatError\<close> with the path.
\<close>

definition load_transactions ::
  "lib \<Rightarrow> string \<Rightarrow> string \<Rightarrow> string list list \<Rightarrow> error + DwightEntry list" where
  "load_transactions py fname cur reader =
     (case load_transactions_try py (abspath py fname) cur reader of
        Inl e \<Rightarrow> Inl (FormatError (abspath py fname) e)
      | Inr entries \<Rightarrow> Inr entries)"

subsection \<open>load_balances\<close>

text \<open>
  The body of the loop of \<^verbatim>\<open>load_balances\<close> on one row. The description is compared
  first: a row with one field has \<^verbatim>\<open>None\<close> there and is passed over; a row with a
  description and fewer than seven fields raises at \<^verbatim>\<open>row['Zhanghao Wu'][0]\<close> once its
  date is read.
\<close>

fun balance_of_row :: "lib \<Rightarrow> string \<Rightarrow> nat \<Rightarrow> string list \<Rightarrow> error + RawBalance option" where
  "balance_of_row py fname line_i
       (c_date # c_description # c_category # c_cost # c_currency # c_zhuohan # c_zhanghao # restkey) =
     (if c_description \<noteq> ''Total balance'' then Inr None
      else (case strptime py c_date of
              None \<Rightarrow> Inl (InvalidDate c_date)
            | Some d \<Rightarrow>
                (case signed_number py c_zhanghao of
                   Inl e \<Rightarrow> Inl e
                 | Inr n \<Rightarrow>
                     Inr (Some \<lparr>account = ''Zhuohan Li'', date = d,
                                amount = \<lparr>number = n, currency = c_currency\<rparr>,
                                filename = fname, line = line_i + 1\<rparr>))))"
| "balance_of_row py fname line_i (c_date # c_description # short_row) =
     (if c_description \<noteq> ''Total balance'' then Inr None
      else (case strptime py c_date of
              None \<Rightarrow> Inl (InvalidDate c_date)
            | Some d \<Rightarrow> Inl TypeError))"
| "balance_of_row py fname line_i short_row = Inr None"

fun balances_loop ::
  "lib \<Rightarrow> string \<Rightarrow> (nat \<times> string list) list \<Rightarrow> RawBalance list \<Rightarrow> error + RawBalance list" where
  "balances_loop py fname [] balances = Inr balances"
| "balances_loop py fname ((line_i, row) # rows) balances =
     (case balance_of_row py fname line_i row of
        Inl e \<Rightarrow> Inl e
      | Inr None \<Rightarrow> balances_loop py fname rows balances
      | Inr (Some balance) \<Rightarrow> balances_loop py fname rows (balances @ [balance]))"

text \<open>\<^verbatim>\<open>load_balances(filename)\<close>: no \<^verbatim>\<open>try\<close> block, the exceptions leave as they are.\<close>

definition load_balances :: "lib \<Rightarrow> string \<Rightarrow> string list list \<Rightarrow> error + RawBalance list" where
  "load_balances py fname reader =
     (if fieldnames reader \<noteq> Some expected_field_names
      then Inl (FieldNamesError (fieldnames reader))
      else balances_loop py (abspath py fname) (enumerate 0 (DictReader_rows reader)) [])"

subsection \<open>Ledger entries\<close>

text \<open>
  The directives of \<^verbatim>\<open>beancount.core.data\<close> the module builds and reads. Metadata is an
  ordered dictionary from names to strings or dates. The fields carry a prefix,
  \<open>p_\<close> for a posting, \<open>t_\<close> for a transaction and \<open>b_\<close> for a balance, to keep
  them apart from the fields of the raw entries.
\<close>

datatype meta_value = MetaStr string | MetaDate date

type_synonym meta = "(string \<times> meta_value) list"

record Posting =
  p_account :: string
  p_units :: Amount
  p_cost :: "Amount option"
  p_price :: "Amount option"
  p_flag :: "string option"
  p_meta :: "meta option"

record Transaction =
  t_meta :: "meta option"
  t_date :: date
  t_flag :: string
  t_payee :: "string option"
  t_narration :: string
  t_tags :: "string set"
  t_links :: "string set"
  t_postings :: "Posting list"

record Balance =
  b_account :: string
  b_date :: date
  b_meta :: "meta option"
  b_amount :: Amount
  b_tolerance :: "Decimal option"
  b_diff_amount :: "Amount option"

datatype Directive = Txn Transaction | Bal Balance | Other

definition FLAG_OKAY :: string where
  "FLAG_OKAY = ''*''"

text \<open>
  Modelled from the spec: \<^verbatim>\<open>FIXME_ACCOUNT\<close> of \<^verbatim>\<open>beancount_import.matching\<close>, which is not
  in the source tree; the spec calls it the designated placeholder account, and the
  example in the docstring of \<^verbatim>\<open>dwight.py\<close> shows its name.
\<close>

definition FIXME_ACCOUNT :: string where
  "FIXME_ACCOUNT = ''Expenses:FIXME''"

text \<open>
  The one message \<^verbatim>\<open>prepare\<close> adds, the warning
  \<^verbatim>\<open>'No Beancount account associated with Dwight account %r.'\<close>, with the external
  account it names.
\<close>

datatype message = NoAccountWarning string

text \<open>
  Modelled from the spec: \<^verbatim>\<open>ImportResult\<close> of \<^verbatim>\<open>beancount_import.source\<close>, which is
  not in the source tree. An import result is a proposal: a date, the provenance and
  the entries proposed.
\<close>

record ImportResult =
  ir_date :: date
  ir_info :: info
  ir_entries :: "Directive list"

text \<open>
  Modelled from the spec: \<^verbatim>\<open>SourceResults\<close> of \<^verbatim>\<open>beancount_import.source\<close>, which is
  not in the source tree. It holds the pending proposals, the ledger postings found
  invalid and the warnings, each in the order they were added; a source starts from
  the empty one, and \<^verbatim>\<open>add_pending_entry\<close>, \<^verbatim>\<open>add_invalid_reference\<close> and
  \<^verbatim>\<open>add_warning\<close> each append to their list.
\<close>

record SourceResults =
  pending :: "ImportResult list"
  invalid_references :: "(Transaction \<times> Posting) list"
  warnings :: "message list"

definition new_results :: SourceResults where
  "new_results = \<lparr>pending = [], invalid_references = [], warnings = []\<rparr>"

definition add_pending_entry :: "ImportResult \<Rightarrow> SourceResults \<Rightarrow> SourceResults" where
  "add_pending_entry r results = results\<lparr>pending := pending results @ [r]\<rparr>"

definition add_invalid_reference :: "Transaction \<times> Posting \<Rightarrow> SourceResults \<Rightarrow> SourceResults" where
  "add_invalid_reference r results =
     results\<lparr>invalid_references := invalid_references results @ [r]\<rparr>"

definition add_warning :: "message \<Rightarrow> SourceResults \<Rightarrow> SourceResults" where
  "add_warning w results = results\<lparr>warnings := warnings results @ [w]\<rparr>"

subsection \<open>Keys and import results\<close>

text \<open>
  \<^verbatim>\<open>_get_key_from_posting\<close>, \<^verbatim>\<open>_get_key_from_csv_entry\<close> and \<^verbatim>\<open>_make_import_result\<close>,
  named here without the leading underscore.
\<close>

type_synonym MatchKey = "string \<times> date \<times> Amount \<times> string"

definition get_key_from_posting ::
  "Transaction \<Rightarrow> Posting \<Rightarrow> Posting list \<Rightarrow> string \<Rightarrow> date \<Rightarrow> MatchKey" where
  "get_key_from_posting entry posting source_postings desc posting_date =
     (p_account posting, posting_date, p_units posting, desc)"

definition get_key_from_csv_entry :: "DwightEntry \<Rightarrow> MatchKey" where
  "get_key_from_csv_entry x = (account x, date x, amount x, source_desc x)"

text \<open>
  The \<^verbatim>\<open>ImportResult\<close> that \<^verbatim>\<open>_make_import_result\<close> builds, for the entry and its
  negated amount.
\<close>

definition import_result_with :: "DwightEntry \<Rightarrow> Amount \<Rightarrow> ImportResult" where
  "import_result_with dwight_entry negated =
     (let transaction =
        \<lparr>t_meta = None,
         t_date = date dwight_entry,
         t_flag = FLAG_OKAY,
         t_payee = None,
         t_narration = source_desc dwight_entry,
         t_tags = {},
         t_links = {},
         t_postings =
           [\<lparr>p_account = account dwight_entry,
             p_units = amount dwight_entry,
             p_cost = None,
             p_price = None,
             p_flag = None,
             p_meta = Some [(''source_desc'', MetaStr (source_desc dwight_entry)),
                            (''date'', MetaDate (date dwight_entry))]\<rparr>,
            \<lparr>p_account = FIXME_ACCOUNT,
             p_units = negated,
             p_cost = None,
             p_price = None,
             p_flag = None,
             p_meta = None\<rparr>]\<rparr>
      in \<lparr>ir_date = date dwight_entry, ir_info = get_info dwight_entry,
          ir_entries = [Txn transaction]\<rparr>)"

text \<open>
  \<^verbatim>\<open>_make_import_result\<close>: the one step of it that can raise is
  \<^verbatim>\<open>-dwight_entry.amount\<close>.
\<close>

definition make_import_result :: "lib \<Rightarrow> DwightEntry \<Rightarrow> error + ImportResult" where
  "make_import_result py dwight_entry =
     (case neg_amount py (amount dwight_entry) of
        Inl e \<Rightarrow> Inl e
      | Inr negated \<Rightarrow> Inr (import_result_with dwight_entry negated))"

subsection \<open>The account mapping and the reconciliation engine\<close>

text \<open>
  Modelled from the spec: \<^verbatim>\<open>get_account_mapping\<close> of
  \<^verbatim>\<open>beancount_import.source.description_based_source\<close>, which is not in the source
  tree. The accounts of the ledger come with the metadata of their open directives;
  an account whose metadata has a string under the given name is associated with that
  external identifier, and the two mappings returned are account to identifier and
  identifier to account, each a dictionary given by its list of items (looked up with
  \<open>map_of\<close>). The spec leaves collisions to the caller.
\<close>

fun account_ids :: "string \<Rightarrow> (string \<times> meta option) list \<Rightarrow> (string \<times> string) list" where
  "account_ids metadata_key [] = []"
| "account_ids metadata_key ((acc, m) # accounts) =
     (case m of
        None \<Rightarrow> account_ids metadata_key accounts
      | Some kvs \<Rightarrow>
          (case map_of kvs metadata_key of
             Some (MetaStr ident) \<Rightarrow> (acc, ident) # account_ids metadata_key accounts
           | _ \<Rightarrow> account_ids metadata_key accounts))"

definition get_account_mapping ::
  "(string \<times> meta option) list \<Rightarrow> string
     \<Rightarrow> (string \<times> string) list \<times> (string \<times> string) list" where
  "get_account_mapping accounts metadata_key =
     (let pairs = account_ids metadata_key accounts
      in (pairs, map (\<lambda>(acc, ident). (ident, acc)) pairs))"

text \<open>
  Modelled from the spec: \<^verbatim>\<open>get_pending_and_invalid_entries\<close> of
  \<^verbatim>\<open>beancount_import.source.description_based_source\<close>, which is not in the source
  tree; section 4.4 of the spec gives its algorithm.

  A posting of a ledger transaction takes part when its account is in the mapped
  account set and its metadata gives the description and the date to match on (the
  \<^verbatim>\<open>source_desc\<close> and \<^verbatim>\<open>date\<close> fields the docstring of \<^verbatim>\<open>dwight.py\<close> names); its key
  is then computed by the key function for postings.
\<close>

definition posting_key ::
  "string set \<Rightarrow> (Transaction \<Rightarrow> Posting \<Rightarrow> Posting list \<Rightarrow> string \<Rightarrow> date \<Rightarrow> 'k)
     \<Rightarrow> Transaction \<Rightarrow> Posting \<Rightarrow> 'k option" where
  "posting_key account_set key_from_posting entry posting =
     (case p_meta posting of
        None \<Rightarrow> None
      | Some m \<Rightarrow>
          if p_account posting \<notin> account_set then None
          else (case (map_of m ''source_desc'', map_of m ''date'') of
                  (Some (MetaStr desc), Some (MetaDate posting_date)) \<Rightarrow>
                    Some (key_from_posting entry posting (t_postings entry) desc posting_date)
                | _ \<Rightarrow> None))"

text \<open>Modelled from the spec: the keyed postings of one ledger transaction, in order.\<close>

fun entry_postings ::
  "string set \<Rightarrow> (Transaction \<Rightarrow> Posting \<Rightarrow> Posting list \<Rightarrow> string \<Rightarrow> date \<Rightarrow> 'k)
     \<Rightarrow> Transaction \<Rightarrow> Posting list \<Rightarrow> ('k \<times> Transaction \<times> Posting) list" where
  "entry_postings account_set key_from_posting entry [] = []"
| "entry_postings account_set key_from_posting entry (posting # ps) =
     (case posting_key account_set key_from_posting entry posting of
        None \<Rightarrow> entry_postings account_set key_from_posting entry ps
      | Some k \<Rightarrow> (k, entry, posting) # entry_postings account_set key_from_posting entry ps)"

text \<open>
  Modelled from the spec: steps 2 and 3, the keyed postings of the ledger, entries
  other than transactions passed over.
\<close>

fun matched_postings ::
  "string set \<Rightarrow> (Transaction \<Rightarrow> Posting \<Rightarrow> Posting list \<Rightarrow> string \<Rightarrow> date \<Rightarrow> 'k)
     \<Rightarrow> Directive list \<Rightarrow> ('k \<times> Transaction \<times> Posting) list" where
  "matched_postings account_set key_from_posting [] = []"
| "matched_postings account_set key_from_posting (Txn entry # journal_entries) =
     entry_postings account_set key_from_posting entry (t_postings entry)
       @ matched_postings account_set key_from_posting journal_entries"
| "matched_postings account_set key_from_posting (_ # journal_entries) =
     matched_postings account_set key_from_posting journal_entries"

text \<open>
  Modelled from the spec: step 4. A record whose key still has a posting left consumes
  one occurrence, the others are pending. Which posting of a key is consumed is left
  open by the spec; here it is the earliest one left. \<open>consume\<close> takes one posting of
  a key out of those left, if there is one.
\<close>

fun consume :: "'k \<Rightarrow> ('k \<times> 'v) list \<Rightarrow> ('k \<times> 'v) list option" where
  "consume k [] = None"
| "consume k ((k', v) # remaining) =
     (if k' = k then Some remaining
      else (case consume k remaining of
              None \<Rightarrow> None
            | Some remaining' \<Rightarrow> Some ((k', v) # remaining')))"

text \<open>
  Modelled from the spec: the pass of step 4 over the records, in their order, giving
  the new records and the postings left at the end.
\<close>

fun match_entries :: "('r \<Rightarrow> 'k) \<Rightarrow> 'r list \<Rightarrow> ('k \<times> 'v) list \<Rightarrow> 'r list \<times> ('k \<times> 'v) list" where
  "match_entries key_from_raw_entry [] remaining = ([], remaining)"
| "match_entries key_from_raw_entry (raw_entry # raw_entries) remaining =
     (case consume (key_from_raw_entry raw_entry) remaining of
        Some remaining' \<Rightarrow> match_entries key_from_raw_entry raw_entries remaining'
      | None \<Rightarrow>
          (case match_entries key_from_raw_entry raw_entries remaining of
             (new_entries, unmatched) \<Rightarrow> (raw_entry # new_entries, unmatched)))"

text \<open>
  Modelled from the spec: an import result is made and added for each new record, in
  their order; the engine fails only where the function that makes it raises.
\<close>

fun add_import_results ::
  "('r \<Rightarrow> error + ImportResult) \<Rightarrow> 'r list \<Rightarrow> SourceResults \<Rightarrow> error + SourceResults" where
  "add_import_results import_result [] results = Inr results"
| "add_import_results import_result (raw_entry # raw_entries) results =
     (case import_result raw_entry of
        Inl e \<Rightarrow> Inl e
      | Inr r \<Rightarrow> add_import_results import_result raw_entries (add_pending_entry r results))"

text \<open>
  Modelled from the spec: the engine as \<^verbatim>\<open>prepare\<close> calls it. By step 5 the postings
  never consumed are the invalid ones.
\<close>

definition get_pending_and_invalid_entries ::
  "'r list \<Rightarrow> Directive list \<Rightarrow> string set
     \<Rightarrow> (Transaction \<Rightarrow> Posting \<Rightarrow> Posting list \<Rightarrow> string \<Rightarrow> date \<Rightarrow> 'k)
     \<Rightarrow> ('r \<Rightarrow> 'k) \<Rightarrow> ('r \<Rightarrow> error + ImportResult) \<Rightarrow> SourceResults
     \<Rightarrow> error + SourceResults" where
  "get_pending_and_invalid_entries raw_entries journal_entries account_set
       key_from_posting key_from_raw_entry import_result results =
     (case match_entries key_from_raw_entry raw_entries
             (matched_postings account_set key_from_posting journal_entries) of
        (new_entries, unmatched) \<Rightarrow>
          (case add_import_results import_result new_entries results of
             Inl e \<Rightarrow> Inl e
           | Inr results' \<Rightarrow> Inr (fold add_invalid_reference (map snd unmatched) results')))"

subsection \<open>DwightSource\<close>

record DwightSource =
  src_filename :: string
  balances_directory :: "string option"
  dwight_entries :: "DwightEntry list"
  balances :: "RawBalance list"

text \<open>
  \<^verbatim>\<open>DwightSource.__init__\<close>, with \<open>files\<close> giving the records of the CSV file at a
  path. The transactions are loaded with the default currency; the balances only when
  a balances path is given (\<^verbatim>\<open>None\<close> and the empty string are both false).
\<close>

definition DwightSource_init ::
  "lib \<Rightarrow> (string \<Rightarrow> string list list) \<Rightarrow> string \<Rightarrow> string option \<Rightarrow> error + DwightSource" where
  "DwightSource_init py files fname bal_dir =
     (case load_transactions py fname ''USD'' (files fname) of
        Inl e \<Rightarrow> Inl e
      | Inr entries \<Rightarrow>
          (case bal_dir of
             None \<Rightarrow>
               Inr \<lparr>src_filename = fname, balances_directory = bal_dir,
                    dwight_entries = entries, balances = []\<rparr>
           | Some dir \<Rightarrow>
               if dir = [] then
                 Inr \<lparr>src_filename = fname, balances_directory = bal_dir,
                      dwight_entries = entries, balances = []\<rparr>
               else
                 (case load_balances py dir (files dir) of
                    Inl e \<Rightarrow> Inl e
                  | Inr bs \<Rightarrow>
                      Inr \<lparr>src_filename = fname, balances_directory = bal_dir,
                           dwight_entries = entries, balances = bs\<rparr>)))"

text \<open>
  Modelled from the spec: \<^verbatim>\<open>JournalEditor\<close> of \<^verbatim>\<open>beancount_import.journal_editor\<close>,
  which is not in the source tree. \<^verbatim>\<open>prepare\<close> reads two things of it, the accounts of
  the ledger with the metadata of their open directives and the list of all recorded
  entries.
\<close>

record JournalEditor =
  accounts :: "(string \<times> meta option) list"
  all_entries :: "Directive list"

text \<open>
  The generator \<^verbatim>\<open>get_converted_dwight_entries\<close> of \<^verbatim>\<open>prepare\<close>, run to its end: the
  entries whose account is mapped, with the ledger account put in, and
  \<^verbatim>\<open>missing_accounts\<close> as it stands afterwards. The set is a list without repetition;
  the order in which Python goes through a set is not modelled.
\<close>

fun get_converted_dwight_entries ::
  "(string \<times> string) list \<Rightarrow> 'a RawBalance_scheme list \<Rightarrow> string list
     \<Rightarrow> 'a RawBalance_scheme list \<times> string list" where
  "get_converted_dwight_entries dwight_id_to_account [] missing_accounts = ([], missing_accounts)"
| "get_converted_dwight_entries dwight_id_to_account (raw # entries) missing_accounts =
     (case map_of dwight_id_to_account (account raw) of
        None \<Rightarrow>
          get_converted_dwight_entries dwight_id_to_account entries
            (List.insert (account raw) missing_accounts)
      | Some acc \<Rightarrow>
          if acc = [] then
            get_converted_dwight_entries dwight_id_to_account entries
              (List.insert (account raw) missing_accounts)
          else
            (case get_converted_dwight_entries dwight_id_to_account entries missing_accounts of
               (converted, missing) \<Rightarrow> (raw\<lparr>account := acc\<rparr> # converted, missing)))"

text \<open>\<^verbatim>\<open>date + datetime.timedelta(days=n)\<close>, which raises beyond \<^verbatim>\<open>date.max\<close>.\<close>

definition add_days :: "date \<Rightarrow> int \<Rightarrow> error + date" where
  "add_days d n = (if 0 < d + n \<and> d + n \<le> MAXORDINAL then Inr (d + n) else Inl OverflowError)"

text \<open>
  The last loop of \<^verbatim>\<open>prepare\<close>, over the converted balances;
  \<open>balance_import_result\<close> is the \<^verbatim>\<open>ImportResult\<close> it builds for a balance and its
  shifted date.
\<close>

definition balance_import_result :: "date \<Rightarrow> RawBalance \<Rightarrow> ImportResult" where
  "balance_import_result d raw_balance =
     \<lparr>ir_date = d, ir_info = get_info raw_balance,
      ir_entries =
        [Bal \<lparr>b_account = account raw_balance, b_date = d, b_meta = None,
              b_amount = amount raw_balance, b_tolerance = None, b_diff_amount = None\<rparr>]\<rparr>"

fun add_balances :: "RawBalance list \<Rightarrow> SourceResults \<Rightarrow> error + SourceResults" where
  "add_balances [] results = Inr results"
| "add_balances (raw_balance # raw_balances) results =
     (case add_days (date raw_balance) 1 of
        Inl e \<Rightarrow> Inl e
      | Inr d \<Rightarrow>
          add_balances raw_balances
            (add_pending_entry (balance_import_result d raw_balance) results))"

text \<open>
  \<^verbatim>\<open>DwightSource.prepare\<close>, with the library its calls run in. The warnings are added
  after the engine has gone through the transactions and before the balances are
  converted.
\<close>

definition prepare ::
  "lib \<Rightarrow> DwightSource \<Rightarrow> JournalEditor \<Rightarrow> SourceResults \<Rightarrow> error + SourceResults" where
  "prepare py self journal results =
     (case get_account_mapping (accounts journal) ''dwight_id'' of
        (account_to_dwight_id, dwight_id_to_account) \<Rightarrow>
          (case get_converted_dwight_entries dwight_id_to_account (dwight_entries self) [] of
             (entries, missing_accounts) \<Rightarrow>
               (case get_pending_and_invalid_entries entries (all_entries journal)
                       (set (map fst account_to_dwight_id)) get_key_from_posting
                       get_key_from_csv_entry (make_import_result py) results of
                  Inl e \<Rightarrow> Inl e
                | Inr results1 \<Rightarrow>
                    (let results2 =
                           fold (\<lambda>dwight_account. add_warning (NoAccountWarning dwight_account))
                             missing_accounts results1
                     in (case get_converted_dwight_entries dwight_id_to_account (balances self)
                                missing_accounts of
                           (raw_balances, missing_accounts') \<Rightarrow>
                             add_balances raw_balances results2)))))"

subsection \<open>The parts of prepare\<close>

text \<open>
  Names for what \<^verbatim>\<open>prepare\<close> computes on the way, used in the statements below: the
  entries of a list whose external account the ledger maps, with the ledger account
  put in; the ledger accounts that have an external account; and the outcome of the
  engine on the transactions of the source, the new entries and the ledger postings
  left unmatched.
\<close>

definition mapped_entries ::
  "JournalEditor \<Rightarrow> 'a RawBalance_scheme list \<Rightarrow> 'a RawBalance_scheme list" where
  "mapped_entries journal raw_entries =
     fst (get_converted_dwight_entries (snd (get_account_mapping (accounts journal) ''dwight_id''))
            raw_entries [])"

definition mapped_accounts :: "JournalEditor \<Rightarrow> string set" where
  "mapped_accounts journal =
     set (map fst (fst (get_account_mapping (accounts journal) ''dwight_id'')))"

definition reconcile ::
  "DwightSource \<Rightarrow> JournalEditor
     \<Rightarrow> DwightEntry list \<times> (MatchKey \<times> Transaction \<times> Posting) list" where
  "reconcile self journal =
     match_entries get_key_from_csv_entry (mapped_entries journal (dwight_entries self))
       (matched_postings (mapped_accounts journal) get_key_from_posting (all_entries journal))"

subsection \<open>An example export\<close>

text \<open>
  The library functions on the strings and numbers of the examples, as Python computes
  them there: \<^verbatim>\<open>D\<close>, the unary minus, which rounds the number of 29 digits to 28, and
  \<^verbatim>\<open>strptime\<close> (the ordinal of 2016-08-10 is 736186); \<^verbatim>\<open>abspath\<close> is the one for the
  working directory \<^verbatim>\<open>/data\<close>.
\<close>

definition sample_lib :: lib where
  "sample_lib =
     \<lparr>D = map_of
            [(''2.45'', Finite (245 / 100)), (''0.00'', Finite 0), (''500.00'', Finite 500),
             (''495.10'', Finite (4951 / 10)),
             (''0.12345678901234567890123456789'',
              Finite (12345678901234567890123456789 / 100000000000000000000000000000))],
      neg = map_of
            [(Finite (245 / 100), Finite (- (245 / 100))),
             (Finite (- (245 / 100)), Finite (245 / 100)),
             (Finite 0, Finite 0),
             (Finite 500, Finite (- 500)),
             (Finite (12345678901234567890123456789 / 100000000000000000000000000000),
              Finite (- (1234567890123456789012345679 / 10000000000000000000000000000)))],
      strptime = map_of [(''2016-08-09'', 736185), (''2016-08-10'', 736186)],
      abspath = (\<lambda>p. ''/data/'' @ p)\<rparr>"

text \<open>
  A file with the expected header, two identical purchases, an empty record, a
  payment, a row of amount zero and a balance row in another currency.
\<close>

definition example_rows :: "string list list" where
  "example_rows =
     [[''2016-08-10'', ''STARBUCKS'', ''Food'', ''4.90'', ''USD'', ''2.45'', ''-2.45''],
      [],
      [''2016-08-09'', ''Rent'', ''Home'', ''1000.00'', ''USD'', ''-500.00'', ''500.00''],
      [''2016-08-10'', ''Waived fee'', ''Fees'', ''0.00'', ''USD'', ''0.00'', ''0.00''],
      [''2016-08-10'', ''STARBUCKS'', ''Food'', ''4.90'', ''USD'', ''2.45'', ''-2.45''],
      [''2016-08-10'', ''Total balance'', '' '', '' '', ''EUR'', ''-495.10'', ''495.10'']]"

definition example_file :: "string list list" where
  "example_file =
     [''Date'', ''Description'', ''Category'', ''Cost'', ''Currency'', ''Zhuohan Li'', ''Zhanghao Wu'']
       # example_rows"

definition example_entries :: "DwightEntry list" where
  "example_entries =
     [\<lparr>account = ''Zhuohan Li'', date = 736185,
       amount = \<lparr>number = Finite 500, currency = ''USD''\<rparr>,
       filename = ''/data/dwight.csv'', line = 2, source_desc = ''Rent''\<rparr>,
      \<lparr>account = ''Zhuohan Li'', date = 736186,
       amount = \<lparr>number = Finite (- (245 / 100)), currency = ''USD''\<rparr>,
       filename = ''/data/dwight.csv'', line = 4, source_desc = ''STARBUCKS''\<rparr>,
      \<lparr>account = ''Zhuohan Li'', date = 736186,
       amount = \<lparr>number = Finite (- (245 / 100)), currency = ''USD''\<rparr>,
       filename = ''/data/dwight.csv'', line = 1, source_desc = ''STARBUCKS''\<rparr>]"

definition example_balances :: "RawBalance list" where
  "example_balances =
     [\<lparr>account = ''Zhuohan Li'', date = 736186,
       amount = \<lparr>number = Finite (4951 / 10), currency = ''EUR''\<rparr>,
       filename = ''/data/dwight.csv'', line = 5\<rparr>]"

text \<open>The files of the examples, by path.\<close>

definition zero_balance_file :: "string list list" where
  "zero_balance_file =
     [[''Date'', ''Description'', ''Category'', ''Cost'', ''Currency'', ''Zhuohan Li'', ''Zhanghao Wu''],
      [''2016-08-10'', ''Total balance'', '' '', '' '', ''USD'', ''0.00'', ''0.00'']]"

definition malformed_file :: "string list list" where
  "malformed_file =
     [[''Date'', ''Description'', ''Category'', ''Cost'', ''Currency'', ''Zhuohan Li'', ''Zhanghao Wu''],
      [''2016-08-10'', ''Total balance'', '' '', '' '', ''USD'', ''abc'', ''abc'']]"

definition bad_header_file :: "string list list" where
  "bad_header_file =
     [[''Date'', ''Description'', ''Amount''],
      [''2016-08-10'', ''Total balance'', ''495.10'']]"

definition balance_only_file :: "string list list" where
  "balance_only_file =
     [[''Date'', ''Description'', ''Category'', ''Cost'', ''Currency'', ''Zhuohan Li'', ''Zhanghao Wu''],
      [''2016-08-10'', ''Total balance'', '' '', '' '', ''USD'', ''-495.10'', ''495.10'']]"

definition example_files :: "string \<Rightarrow> string list list" where
  "example_files path =
     (if path = ''dwight.csv'' then example_file
      else if path = ''balance.csv'' then balance_only_file
      else [])"

definition example_source :: DwightSource where
  "example_source =
     \<lparr>src_filename = ''dwight.csv'', balances_directory = Some ''dwight.csv'',
      dwight_entries = example_entries, balances = example_balances\<rparr>"

definition balance_only_source :: DwightSource where
  "balance_only_source =
     \<lparr>src_filename = ''balance.csv'', balances_directory = Some ''balance.csv'',
      dwight_entries = [],
      balances =
        [\<lparr>account = ''Zhuohan Li'', date = 736186,
          amount = \<lparr>number = Finite (4951 / 10), currency = ''USD''\<rparr>,
          filename = ''/data/balance.csv'', line = 1\<rparr>]\<rparr>"

text \<open>
  A ledger whose account \<^verbatim>\<open>Assets:Dwight\<close> is associated with the external account.
  It records one of the two purchases of the export, and a refund the export does not
  have.
\<close>

definition coffee_posting :: Posting where
  "coffee_posting =
     \<lparr>p_account = ''Assets:Dwight'', p_units = \<lparr>number = Finite (- (245 / 100)), currency = ''USD''\<rparr>,
      p_cost = None, p_price = None, p_flag = None,
      p_meta = Some [(''source_desc'', MetaStr ''STARBUCKS''), (''date'', MetaDate 736186)]\<rparr>"

definition coffee_transaction :: Transaction where
  "coffee_transaction =
     \<lparr>t_meta = None, t_date = 736186, t_flag = ''*'', t_payee = None,
      t_narration = ''STARBUCKS'', t_tags = {}, t_links = {},
      t_postings =
        [coffee_posting,
         \<lparr>p_account = ''Expenses:Coffee'', p_units = \<lparr>number = Finite (245 / 100), currency = ''USD''\<rparr>,
          p_cost = None, p_price = None, p_flag = None, p_meta = None\<rparr>]\<rparr>"

definition refund_posting :: Posting where
  "refund_posting =
     \<lparr>p_account = ''Assets:Dwight'', p_units = \<lparr>number = Finite 10, currency = ''USD''\<rparr>,
      p_cost = None, p_price = None, p_flag = None,
      p_meta = Some [(''source_desc'', MetaStr ''Refund''), (''date'', MetaDate 736185)]\<rparr>"

definition refund_transaction :: Transaction where
  "refund_transaction =
     \<lparr>t_meta = None, t_date = 736185, t_flag = ''*'', t_payee = None,
      t_narration = ''Refund'', t_tags = {}, t_links = {},
      t_postings =
        [refund_posting,
         \<lparr>p_account = ''Expenses:Coffee'', p_units = \<lparr>number = Finite (- 10), currency = ''USD''\<rparr>,
          p_cost = None, p_price = None, p_flag = None, p_meta = None\<rparr>]\<rparr>"

definition example_journal :: JournalEditor where
  "example_journal =
     \<lparr>accounts = [(''Assets:Dwight'', Some [(''dwight_id'', MetaStr ''Zhuohan Li'')]),
                  (''Expenses:Coffee'', None)],
      all_entries = [Other, Txn coffee_transaction, Txn refund_transaction]\<rparr>"

text \<open>A ledger in which no account is associated with an external account.\<close>

definition unmapped_journal :: JournalEditor where
  "unmapped_journal =
     \<lparr>accounts = [(''Assets:Dwight'', None), (''Expenses:Coffee'', None)],
      all_entries = [Other, Txn coffee_transaction]\<rparr>"

text \<open>
  What \<^verbatim>\<open>prepare\<close> gives for the example export and the example ledger: drafts for
  the payment and for the second purchase, the balance proposal, and the refund as an
  invalid reference.
\<close>

definition example_results :: SourceResults where
  "example_results =
     \<lparr>pending =
        [import_result_with ((example_entries ! 0)\<lparr>account := ''Assets:Dwight''\<rparr>)
           \<lparr>number = Finite (- 500), currency = ''USD''\<rparr>,
         import_result_with ((example_entries ! 2)\<lparr>account := ''Assets:Dwight''\<rparr>)
           \<lparr>number = Finite (245 / 100), currency = ''USD''\<rparr>,
         balance_import_result 736187 ((example_balances ! 0)\<lparr>account := ''Assets:Dwight''\<rparr>)],
      invalid_references = [(refund_transaction, refund_posting)],
      warnings = []\<rparr>"

text \<open>The example source loaded without a balances path.\<close>

definition transactions_source :: DwightSource where
  "transactions_source =
     \<lparr>src_filename = ''dwight.csv'', balances_directory = None,
      dwight_entries = example_entries, balances = []\<rparr>"

text \<open>
  What \<^verbatim>\<open>prepare\<close> gives for the example export once the proposals of
  \<open>example_results\<close> are in the ledger.
\<close>

definition accepted_results :: SourceResults where
  "accepted_results =
     \<lparr>pending =
        [balance_import_result 736187 ((example_balances ! 0)\<lparr>account := ''Assets:Dwight''\<rparr>)],
      invalid_references = [(refund_transaction, refund_posting)],
      warnings = []\<rparr>"



section \<open>Properties\<close>

subsection \<open>The examples, evaluated\<close>

lemma load_transactions_example:
  "load_transactions sample_lib ''dwight.csv'' ''USD'' example_file = Inr example_entries"
  by code_simp

lemma load_balances_example:
  "load_balances sample_lib ''dwight.csv'' example_file = Inr example_balances"
  by code_simp

lemma prepare_example:
  "prepare sample_lib example_source example_journal new_results = Inr example_results"
  by code_simp

lemma example_rows_eq:
  "DictReader_rows example_file =
     [[''2016-08-10'', ''STARBUCKS'', ''Food'', ''4.90'', ''USD'', ''2.45'', ''-2.45''],
      [''2016-08-09'', ''Rent'', ''Home'', ''1000.00'', ''USD'', ''-500.00'', ''500.00''],
      [''2016-08-10'', ''Waived fee'', ''Fees'', ''0.00'', ''USD'', ''0.00'', ''0.00''],
      [''2016-08-10'', ''STARBUCKS'', ''Food'', ''4.90'', ''USD'', ''2.45'', ''-2.45''],
      [''2016-08-10'', ''Total balance'', '' '', '' '', ''EUR'', ''-495.10'', ''495.10'']]"
  by (simp add: DictReader_rows_def example_file_def example_rows_def)

subsection \<open>The rows of the loaders\<close>

lemma eq_ZERO_iff: "eq_ZERO n = Inr True \<longleftrightarrow> n = ZERO"
  by (cases n) (simp_all add: ZERO_def)

lemma transaction_of_row_SomeD:
  assumes "transaction_of_row py fn cur i row = Inr (Some e)"
  shows "line e = i + 1" and "account e = ''Zhuohan Li''" and "currency (amount e) = cur"
    and "number (amount e) \<noteq> ZERO" and "filename e = fn"
  using assms
  by (induction py fn cur i row rule: transaction_of_row.induct;
      auto split: sum.splits if_splits option.splits simp: eq_ZERO_iff[symmetric])+

text \<open>The loop appends its entries in the order of the rows, so their lines increase.\<close>

lemma transactions_loop_lines:
  assumes "transactions_loop py fn cur rows acc = Inr es"
    and "sorted_wrt (<) (map fst rows)"
    and "sorted_wrt (<) (map line acc)"
    and "\<forall>e\<in>set acc. \<forall>i\<in>set (map fst rows). line e \<le> i"
  shows "sorted_wrt (<) (map line es)"
  using assms
proof (induction rows arbitrary: acc)
  case Nil
  then show ?case by simp
next
  case (Cons ir rows)
  obtain i row where ir: "ir = (i, row)" by (cases ir)
  show ?case
  proof (cases "transaction_of_row py fn cur i row")
    case (Inl e)
    with Cons.prems(1) ir show ?thesis by simp
  next
    case (Inr r)
    show ?thesis
    proof (cases r)
      case None
      with Inr Cons.prems ir have "transactions_loop py fn cur rows acc = Inr es" by simp
      moreover from Cons.prems(2) have "sorted_wrt (<) (map fst rows)" by simp
      moreover from Cons.prems(4) have "\<forall>e\<in>set acc. \<forall>i\<in>set (map fst rows). line e \<le> i" by simp
      ultimately show ?thesis using Cons.IH Cons.prems(3) by blast
    next
      case (Some entry)
      with Inr have row: "transaction_of_row py fn cur i row = Inr (Some entry)" by simp
      then have l: "line entry = i + 1" by (rule transaction_of_row_SomeD)
      from row Cons.prems(1) ir
      have 1: "transactions_loop py fn cur rows (acc @ [entry]) = Inr es" by simp
      from Cons.prems(2) have 2: "sorted_wrt (<) (map fst rows)" by simp
      from Cons.prems(4) ir have "\<forall>e\<in>set acc. line e \<le> i" by simp
      with Cons.prems(3) l have 3: "sorted_wrt (<) (map line (acc @ [entry]))"
        by (auto simp: sorted_wrt_append)
      from Cons.prems(2) ir have gt: "\<forall>j\<in>set (map fst rows). i < j" by auto
      with l Cons.prems(4) have 4: "\<forall>e\<in>set (acc @ [entry]). \<forall>j\<in>set (map fst rows). line e \<le> j"
        by auto
      from Cons.IH[OF 1 2 3 4] show ?thesis .
    qed
  qed
qed

text \<open>
  In a list whose elements of each key are in decreasing order of \<open>g\<close>, two
  positions with the same key are in that order.
\<close>

lemma same_key_order:
  fixes f :: "'a \<Rightarrow> 'k" and g :: "'a \<Rightarrow> nat"
  assumes "\<And>k. sorted_wrt (\<lambda>a b. g b < g a) (filter (\<lambda>y. f y = k) xs)"
    and "i < j" and "j < length xs" and "f (xs ! i) = f (xs ! j)"
  shows "g (xs ! j) < g (xs ! i)"
proof -
  have gen: "sorted_wrt R (filter P ys) \<Longrightarrow> sorted_wrt (\<lambda>a b. P a \<and> P b \<longrightarrow> R a b) ys"
    for R :: "'a \<Rightarrow> 'a \<Rightarrow> bool" and P ys
    by (induction ys) (auto split: if_splits)
  from assms(1) have "sorted_wrt (\<lambda>a b. f a = f (xs ! j) \<and> f b = f (xs ! j) \<longrightarrow> g b < g a) xs"
    by (rule gen)
  with assms(2-4) show ?thesis
    by (auto simp: sorted_wrt_iff_nth_less)
qed

text \<open>Every entry a loop returns was there before or comes from one of the rows.\<close>

lemma transactions_loop_set:
  assumes "transactions_loop py fn cur rows acc = Inr es" and "e \<in> set es"
  shows "e \<in> set acc \<or> (\<exists>i row. (i, row) \<in> set rows \<and> transaction_of_row py fn cur i row = Inr (Some e))"
  using assms
proof (induction rows arbitrary: acc)
  case Nil
  then show ?case by simp
next
  case (Cons ir rows)
  obtain i row where ir: "ir = (i, row)" by (cases ir)
  show ?case
  proof (cases "transaction_of_row py fn cur i row")
    case (Inl x)
    with Cons.prems ir show ?thesis by simp
  next
    case (Inr r)
    show ?thesis
    proof (cases r)
      case None
      with Inr Cons.prems ir have "transactions_loop py fn cur rows acc = Inr es" by simp
      from Cons.IH[OF this Cons.prems(2)] ir show ?thesis by auto
    next
      case (Some entry)
      with Inr Cons.prems ir have "transactions_loop py fn cur rows (acc @ [entry]) = Inr es" by simp
      from Cons.IH[OF this Cons.prems(2)] ir Inr Some show ?thesis by auto
    qed
  qed
qed

lemma balance_of_row_SomeD:
  assumes "balance_of_row py fn i row = Inr (Some b)"
  shows "line b = i + 1" and "account b = ''Zhuohan Li''" and "filename b = fn"
    and "\<exists>c_date c_category c_cost c_currency c_zhuohan c_zhanghao restkey.
           row = c_date # ''Total balance'' # c_category # c_cost # c_currency # c_zhuohan
                   # c_zhanghao # restkey
           \<and> currency (amount b) = c_currency"
  using assms
  by (induction py fn i row rule: balance_of_row.induct;
      auto split: sum.splits if_splits option.splits)+

lemma balances_loop_set:
  assumes "balances_loop py fn rows acc = Inr bs" and "b \<in> set bs"
  shows "b \<in> set acc \<or> (\<exists>i row. (i, row) \<in> set rows \<and> balance_of_row py fn i row = Inr (Some b))"
  using assms
proof (induction rows arbitrary: acc)
  case Nil
  then show ?case by simp
next
  case (Cons ir rows)
  obtain i row where ir: "ir = (i, row)" by (cases ir)
  show ?case
  proof (cases "balance_of_row py fn i row")
    case (Inl x)
    with Cons.prems ir show ?thesis by simp
  next
    case (Inr r)
    show ?thesis
    proof (cases r)
      case None
      with Inr Cons.prems ir have "balances_loop py fn rows acc = Inr bs" by simp
      from Cons.IH[OF this Cons.prems(2)] ir show ?thesis by auto
    next
      case (Some entry)
      with Inr Cons.prems ir have "balances_loop py fn rows (acc @ [entry]) = Inr bs" by simp
      from Cons.IH[OF this Cons.prems(2)] ir Inr Some show ?thesis by auto
    qed
  qed
qed

lemma balances_loop_acc:
  "balances_loop py fn rows acc = Inr bs \<Longrightarrow> set acc \<subseteq> set bs"
proof (induction rows arbitrary: acc)
  case Nil
  then show ?case by simp
next
  case (Cons ir rows)
  obtain i row where ir: "ir = (i, row)" by (cases ir)
  show ?case
  proof (cases "balance_of_row py fn i row")
    case (Inl x)
    with Cons.prems ir show ?thesis by simp
  next
    case (Inr r)
    show ?thesis
    proof (cases r)
      case None
      with Inr Cons.prems ir have "balances_loop py fn rows acc = Inr bs" by simp
      then show ?thesis by (rule Cons.IH)
    next
      case (Some entry)
      with Inr Cons.prems ir have "balances_loop py fn rows (acc @ [entry]) = Inr bs" by simp
      then have "set (acc @ [entry]) \<subseteq> set bs" by (rule Cons.IH)
      then show ?thesis by simp
    qed
  qed
qed

lemma balances_loop_complete:
  assumes "balances_loop py fn rows acc = Inr bs" and "(i, row) \<in> set rows"
  shows "balance_of_row py fn i row = Inr None
         \<or> (\<exists>b\<in>set bs. balance_of_row py fn i row = Inr (Some b))"
  using assms
proof (induction rows arbitrary: acc)
  case Nil
  then show ?case by simp
next
  case (Cons jr rows)
  obtain j r where jr: "jr = (j, r)" by (cases jr)
  show ?case
  proof (cases "(i, row) = (j, r)")
    case True
    with Cons.prems(1) jr show ?thesis
      by (auto split: sum.splits option.splits dest!: balances_loop_acc)
  next
    case False
    with Cons.prems(2) jr have "(i, row) \<in> set rows" by auto
    with Cons.prems(1) jr Cons.IH show ?thesis
      by (auto split: sum.splits option.splits)
  qed
qed

lemma load_transactions_set:
  assumes "load_transactions py fname cur reader = Inr es" and "e \<in> set es"
  shows "\<exists>i. i < length (DictReader_rows reader)
           \<and> transaction_of_row py (abspath py fname) cur i (DictReader_rows reader ! i) = Inr (Some e)"
proof -
  from assms(1) obtain entries where
    loop: "transactions_loop py (abspath py fname) cur
             (enumerate 0 (DictReader_rows reader)) [] = Inr entries"
    and es: "es = sort_key date (rev entries)"
    by (auto simp: load_transactions_def load_transactions_try_def split: sum.splits if_splits)
  from assms(2) es have "e \<in> set entries" by simp
  from transactions_loop_set[OF loop this] show ?thesis
    by (auto simp: in_set_enumerate_eq)
qed

lemma load_balances_set:
  assumes "load_balances py fname reader = Inr bs" and "b \<in> set bs"
  shows "\<exists>i. i < length (DictReader_rows reader)
           \<and> balance_of_row py (abspath py fname) i (DictReader_rows reader ! i) = Inr (Some b)"
proof -
  from assms(1) have
    loop: "balances_loop py (abspath py fname) (enumerate 0 (DictReader_rows reader)) [] = Inr bs"
    by (auto simp: load_balances_def split: if_splits)
  from balances_loop_set[OF loop assms(2)] show ?thesis
    by (auto simp: in_set_enumerate_eq)
qed

lemma load_balances_complete:
  assumes "load_balances py fname reader = Inr bs" and "i < length (DictReader_rows reader)"
  shows "balance_of_row py (abspath py fname) i (DictReader_rows reader ! i) = Inr None
         \<or> (\<exists>b\<in>set bs. balance_of_row py (abspath py fname) i (DictReader_rows reader ! i) = Inr (Some b))"
proof -
  from assms(1) have
    loop: "balances_loop py (abspath py fname) (enumerate 0 (DictReader_rows reader)) [] = Inr bs"
    by (auto simp: load_balances_def split: if_splits)
  from assms(2) have "(i, DictReader_rows reader ! i) \<in> set (enumerate 0 (DictReader_rows reader))"
    by (simp add: in_set_enumerate_eq)
  from balances_loop_complete[OF loop this] show ?thesis .
qed

subsection \<open>The order of the loaded transactions\<close>

text \<open>
  Claim C2. The list \<^verbatim>\<open>load_transactions\<close> returns is in ascending order of date, and
  two of its records with the same date stand in the reverse of their order in the
  file: the later one in the list has the smaller line number.
\<close>

theorem load_transactions_order:
  assumes "load_transactions py fname cur reader = Inr es"
  shows "sorted (map date es) \<and>
         (\<forall>i j. i < j \<and> j < length es \<and> date (es ! i) = date (es ! j)
                 \<longrightarrow> line (es ! j) < line (es ! i))"
proof -
  from assms obtain entries where
    loop: "transactions_loop py (abspath py fname) cur (enumerate 0 (DictReader_rows reader)) [] = Inr entries"
    and es: "es = sort_key date (rev entries)"
    by (auto simp: load_transactions_def load_transactions_try_def split: sum.splits if_splits)
  have "sorted_wrt (<) (map line entries)"
    by (rule transactions_loop_lines[OF loop]) simp_all
  then have "sorted_wrt (\<lambda>a b. line a < line b) entries"
    by (simp add: sorted_wrt_map)
  then have "sorted_wrt (\<lambda>a b. line b < line a) (rev entries)"
    by (simp add: sorted_wrt_rev)
  then have "sorted_wrt (\<lambda>a b. line b < line a) (filter (\<lambda>y. date y = k) es)" for k
    unfolding es sort_key_stable by (rule sorted_wrt_filter)
  then have "\<forall>i j. i < j \<and> j < length es \<and> date (es ! i) = date (es ! j)
                 \<longrightarrow> line (es ! j) < line (es ! i)"
    using same_key_order[where f = date and g = line and xs = es] by blast
  moreover have "sorted (map date es)"
    unfolding es by simp
  ultimately show ?thesis by blast
qed

theorem load_transactions_order_witness:
  "load_transactions sample_lib ''dwight.csv'' ''USD'' example_file = Inr example_entries
   \<and> sorted (map date example_entries)
   \<and> date (example_entries ! 1) = date (example_entries ! 2)
   \<and> line (example_entries ! 2) < line (example_entries ! 1)"
proof -
  have ev: "load_transactions sample_lib ''dwight.csv'' ''USD'' example_file = Inr example_entries"
    by code_simp
  have same: "date (example_entries ! 1) = date (example_entries ! 2)"
    by (simp add: example_entries_def)
  have len: "(1::nat) < 2 \<and> 2 < length example_entries"
    by (simp add: example_entries_def)
  from load_transactions_order[OF ev] len same
  have "sorted (map date example_entries)"
    and "line (example_entries ! 2) < line (example_entries ! 1)"
    by blast+
  with ev same show ?thesis by blast
qed

subsection \<open>Rows of amount zero\<close>

text \<open>
  Claim C3 says that a row whose amount parses to zero appears in the result of
  neither loader. It fails for \<^verbatim>\<open>load_balances\<close>, which never looks at the number: a
  balance row of amount zero is loaded like any other.
\<close>

theorem zero_balance_loaded:
  "signed_number sample_lib ''0.00'' = Inr ZERO
   \<and> load_balances sample_lib ''dwight.csv'' zero_balance_file
       = Inr [\<lparr>account = ''Zhuohan Li'', date = 736186,
               amount = \<lparr>number = Finite 0, currency = ''USD''\<rparr>,
               filename = ''/data/dwight.csv'', line = 1\<rparr>]"
  by code_simp

text \<open>
  Claim C3, amended. A row whose amount parses to zero never appears among the
  records \<^verbatim>\<open>load_transactions\<close> returns, whatever its description;
  \<^verbatim>\<open>load_balances\<close> returns a record for it exactly when its description is
  \<^verbatim>\<open>Total balance\<close>. The row is the one numbered \<open>i\<close> by the reader, and a record
  of it carries the line \<open>i + 1\<close>.
\<close>

theorem zero_amount_rows:
  assumes i: "i < length (DictReader_rows reader)"
    and row: "DictReader_rows reader ! i =
            c_date # c_description # c_category # c_cost # c_currency # c_zhuohan # c_zhanghao # restkey"
    and zero: "signed_number py c_zhanghao = Inr ZERO"
  shows "(load_transactions py fname cur reader = Inr es \<longrightarrow> (\<forall>e\<in>set es. line e \<noteq> i + 1))
       \<and> (load_balances py fname reader = Inr bs \<longrightarrow>
            ((\<exists>b\<in>set bs. line b = i + 1) \<longleftrightarrow> c_description = ''Total balance''))"
proof (intro conjI impI)
  assume lt: "load_transactions py fname cur reader = Inr es"
  show "\<forall>e\<in>set es. line e \<noteq> i + 1"
  proof
    fix e assume "e \<in> set es"
    from load_transactions_set[OF lt this] obtain j where
      j: "transaction_of_row py (abspath py fname) cur j (DictReader_rows reader ! j) = Inr (Some e)"
      by blast
    then have l: "line e = j + 1" by (rule transaction_of_row_SomeD)
    show "line e \<noteq> i + 1"
    proof
      assume "line e = i + 1"
      with l have "j = i" by simp
      with j row zero show False by (simp add: ZERO_def)
    qed
  qed
next
  assume lb: "load_balances py fname reader = Inr bs"
  show "(\<exists>b\<in>set bs. line b = i + 1) \<longleftrightarrow> c_description = ''Total balance''"
  proof
    assume "\<exists>b\<in>set bs. line b = i + 1"
    then obtain b where b: "b \<in> set bs" and lb1: "line b = i + 1" by blast
    from load_balances_set[OF lb b] obtain j where
      j: "balance_of_row py (abspath py fname) j (DictReader_rows reader ! j) = Inr (Some b)"
      by blast
    then have "line b = j + 1" by (rule balance_of_row_SomeD)
    with lb1 have "j = i" by simp
    with j row show "c_description = ''Total balance''"
      by (auto split: if_splits)
  next
    assume tb: "c_description = ''Total balance''"
    from load_balances_complete[OF lb i] row tb zero
    obtain b where b: "b \<in> set bs"
      and r: "balance_of_row py (abspath py fname) i (DictReader_rows reader ! i) = Inr (Some b)"
      by (auto split: option.splits)
    from r have "line b = i + 1" by (rule balance_of_row_SomeD)
    with b show "\<exists>b\<in>set bs. line b = i + 1" by blast
  qed
qed

theorem zero_amount_rows_witness:
  "load_transactions sample_lib ''dwight.csv'' ''USD'' example_file = Inr example_entries
   \<and> load_balances sample_lib ''dwight.csv'' example_file = Inr example_balances
   \<and> signed_number sample_lib ''0.00'' = Inr ZERO
   \<and> 3 \<notin> set (map line example_entries)
   \<and> \<not> (\<exists>b\<in>set example_balances. line b = 3)"
proof -
  have i: "2 < length (DictReader_rows example_file)"
    by (simp add: example_rows_eq)
  have row: "DictReader_rows example_file ! 2 =
               ''2016-08-10'' # ''Waived fee'' # ''Fees'' # ''0.00'' # ''USD'' # ''0.00'' # ''0.00'' # []"
    by (simp add: example_rows_eq)
  have zero: "signed_number sample_lib ''0.00'' = Inr ZERO"
    by code_simp
  from zero_amount_rows[OF i row zero, of "''dwight.csv''" "''USD''" example_entries example_balances]
    load_transactions_example load_balances_example
  have "\<forall>e\<in>set example_entries. line e \<noteq> 2 + 1"
    and "(\<exists>b\<in>set example_balances. line b = 2 + 1) \<longleftrightarrow> ''Waived fee'' = ''Total balance''"
    by blast+
  then have "3 \<notin> set (map line example_entries)"
    and "\<not> (\<exists>b\<in>set example_balances. line b = 3)"
    by auto
  with zero load_transactions_example load_balances_example show ?thesis by blast
qed

subsection \<open>Failures of the loaders\<close>

text \<open>
  A failure of \<^verbatim>\<open>load_transactions\<close> is always the error with the absolute path of
  the file, whatever went wrong inside, and the function returns the full list or
  that error.
\<close>

lemma load_transactions_atomic:
  "load_transactions py fname cur reader = Inl e \<Longrightarrow> \<exists>cause. e = FormatError (abspath py fname) cause"
  by (auto simp: load_transactions_def split: sum.splits)

text \<open>
  Claim C4 asks the same of both loaders. \<^verbatim>\<open>load_balances\<close> has no \<^verbatim>\<open>try\<close> block:
  on a malformed amount and on a wrong header it raises the inner exception, which
  carries no path, where \<^verbatim>\<open>load_transactions\<close> on the same files raises the error
  with the path.
\<close>

theorem load_balances_errors_unwrapped:
  "load_balances sample_lib ''dwight.csv'' malformed_file = Inl (ValueError ''abc'')
   \<and> load_transactions sample_lib ''dwight.csv'' ''USD'' malformed_file
       = Inl (FormatError ''/data/dwight.csv'' (ValueError ''abc''))
   \<and> load_balances sample_lib ''dwight.csv'' bad_header_file
       = Inl (FieldNamesError (Some [''Date'', ''Description'', ''Amount'']))
   \<and> load_transactions sample_lib ''dwight.csv'' ''USD'' bad_header_file
       = Inl (FormatError ''/data/dwight.csv''
                (FieldNamesError (Some [''Date'', ''Description'', ''Amount''])))"
  by code_simp

subsection \<open>The currency of the amounts\<close>

text \<open>
  Claim C9 says that every loaded record, transaction or balance, carries the
  configured currency. \<^verbatim>\<open>load_balances\<close> has no currency parameter and takes the
  currency from the row: the balance of the example export is in EUR, next to
  transactions in the default USD.
\<close>

theorem balance_currency_from_row:
  "DwightSource_init sample_lib example_files ''dwight.csv'' (Some ''dwight.csv'')
     = Inr example_source
   \<and> map currency (map amount (dwight_entries example_source)) = [''USD'', ''USD'', ''USD'']
   \<and> map currency (map amount (balances example_source)) = [''EUR'']"
  by code_simp

text \<open>
  Claim C9, amended. Every record \<^verbatim>\<open>load_transactions\<close> returns carries the currency
  given to it, which is USD when \<^verbatim>\<open>DwightSource\<close> loads the file; every record
  \<^verbatim>\<open>load_balances\<close> returns carries the currency written in the \<^verbatim>\<open>Currency\<close> column
  of its row.
\<close>

theorem amount_currency:
  "(load_transactions py fname cur reader = Inr es
      \<longrightarrow> (\<forall>e\<in>set es. currency (amount e) = cur))
   \<and> (DwightSource_init py files fname bal_dir = Inr src
      \<longrightarrow> (\<forall>e\<in>set (dwight_entries src). currency (amount e) = ''USD''))
   \<and> (load_balances py fname reader = Inr bs
      \<longrightarrow> (\<forall>b\<in>set bs. \<exists>c_date c_category c_cost c_currency c_zhuohan c_zhanghao restkey.
             0 < line b \<and> line b - 1 < length (DictReader_rows reader)
             \<and> DictReader_rows reader ! (line b - 1) =
                 c_date # ''Total balance'' # c_category # c_cost # c_currency # c_zhuohan
                   # c_zhanghao # restkey
             \<and> currency (amount b) = c_currency))"
proof (intro conjI impI ballI)
  fix e assume "load_transactions py fname cur reader = Inr es" and "e \<in> set es"
  from load_transactions_set[OF this] show "currency (amount e) = cur"
    by (auto dest: transaction_of_row_SomeD)
next
  fix e assume init: "DwightSource_init py files fname bal_dir = Inr src"
    and e: "e \<in> set (dwight_entries src)"
  from init obtain entries where
    lt: "load_transactions py fname ''USD'' (files fname) = Inr entries"
    and "dwight_entries src = entries"
    by (auto simp: DwightSource_init_def split: sum.splits option.splits if_splits)
  with e have "e \<in> set entries" by simp
  from load_transactions_set[OF lt this] show "currency (amount e) = ''USD''"
    by (auto dest: transaction_of_row_SomeD)
next
  fix b assume lb: "load_balances py fname reader = Inr bs" and b: "b \<in> set bs"
  from load_balances_set[OF lb b] obtain i where i: "i < length (DictReader_rows reader)"
    and r: "balance_of_row py (abspath py fname) i (DictReader_rows reader ! i) = Inr (Some b)"
    by blast
  from r have l: "line b = i + 1" by (rule balance_of_row_SomeD)
  from balance_of_row_SomeD(4)[OF r] i l
  show "\<exists>c_date c_category c_cost c_currency c_zhuohan c_zhanghao restkey.
             0 < line b \<and> line b - 1 < length (DictReader_rows reader)
             \<and> DictReader_rows reader ! (line b - 1) =
                 c_date # ''Total balance'' # c_category # c_cost # c_currency # c_zhuohan
                   # c_zhanghao # restkey
             \<and> currency (amount b) = c_currency"
    by auto
qed

theorem amount_currency_witness:
  "load_transactions sample_lib ''dwight.csv'' ''USD'' example_file = Inr example_entries
   \<and> currency (amount (example_entries ! 1)) = ''USD''
   \<and> load_balances sample_lib ''dwight.csv'' example_file = Inr example_balances
   \<and> currency (amount (example_balances ! 0)) = ''EUR''"
proof -
  note c = amount_currency[of sample_lib "''dwight.csv''" "''USD''" example_file example_entries
      example_files None example_source example_balances]
  have e: "example_entries ! 1 \<in> set example_entries"
    by (simp add: example_entries_def)
  have b: "example_balances ! 0 \<in> set example_balances"
    by (simp add: example_balances_def)
  from c load_transactions_example e
  have usd: "currency (amount (example_entries ! 1)) = ''USD''" by blast
  from c load_balances_example b
  obtain c_date c_category c_cost c_currency c_zhuohan c_zhanghao restkey where
    row: "DictReader_rows example_file ! (line (example_balances ! 0) - 1) =
            c_date # ''Total balance'' # c_category # c_cost # c_currency # c_zhuohan
              # c_zhanghao # restkey"
    and cur: "currency (amount (example_balances ! 0)) = c_currency"
    by blast
  from row have "c_currency = ''EUR''"
    by (simp add: example_rows_eq example_balances_def)
  with cur usd load_transactions_example load_balances_example show ?thesis by simp
qed

subsection \<open>The external account\<close>

text \<open>Neither loop body reads the sixth column, \<^verbatim>\<open>Zhuohan Li\<close>, of a row.\<close>

lemma transaction_of_row_column:
  "transaction_of_row py fn cur i (row[5 := v]) = transaction_of_row py fn cur i row"
  by (induction py fn cur i row rule: transaction_of_row.induct)
     (simp_all add: numeral_eq_Suc)

lemma balance_of_row_column:
  "balance_of_row py fn i (row[5 := v]) = balance_of_row py fn i row"
  by (induction py fn i row rule: balance_of_row.induct)
     (simp_all add: numeral_eq_Suc)

lemma transactions_loop_column:
  "transactions_loop py fn cur (map (\<lambda>(i, row). (i, row[5 := g row])) rows) acc
     = transactions_loop py fn cur rows acc"
  by (induction rows arbitrary: acc)
     (auto simp: transaction_of_row_column split: sum.splits option.splits)

lemma balances_loop_column:
  "balances_loop py fn (map (\<lambda>(i, row). (i, row[5 := g row])) rows) acc
     = balances_loop py fn rows acc"
  by (induction rows arbitrary: acc)
     (auto simp: balance_of_row_column split: sum.splits option.splits)

lemma enumerate_map_column:
  "enumerate n (map f rows) = map (\<lambda>(i, row). (i, f row)) (enumerate n rows)"
  by (induction rows arbitrary: n) simp_all

lemma DictReader_rows_column:
  "DictReader_rows (header # map (\<lambda>row. row[5 := g row]) rows)
     = map (\<lambda>row. row[5 := g row]) (DictReader_rows (header # rows))"
  by (simp add: DictReader_rows_def filter_map comp_def)

text \<open>
  Claim C10. Every record of \<^verbatim>\<open>load_transactions\<close> and of \<^verbatim>\<open>load_balances\<close> has the
  external account \<^verbatim>\<open>Zhuohan Li\<close>, and the loaders never consult the account column:
  putting anything else into the sixth field of the rows changes neither result. So
  in any mapping of external accounts all loaded records are looked up under that
  one name.
\<close>

theorem fixed_external_account:
  "(load_transactions py fname cur (header # rows) = Inr es
      \<longrightarrow> (\<forall>e\<in>set es. account e = ''Zhuohan Li''
            \<and> map_of dwight_id_to_account (account e) = map_of dwight_id_to_account ''Zhuohan Li''))
   \<and> (load_balances py fname (header # rows) = Inr bs
      \<longrightarrow> (\<forall>b\<in>set bs. account b = ''Zhuohan Li''
            \<and> map_of dwight_id_to_account (account b) = map_of dwight_id_to_account ''Zhuohan Li''))
   \<and> load_transactions py fname cur (header # map (\<lambda>row. row[5 := g row]) rows)
       = load_transactions py fname cur (header # rows)
   \<and> load_balances py fname (header # map (\<lambda>row. row[5 := g row]) rows)
       = load_balances py fname (header # rows)"
proof -
  have t: "account e = ''Zhuohan Li''"
    if "load_transactions py fname cur (header # rows) = Inr es" and "e \<in> set es" for e
    using load_transactions_set[OF that] by (auto dest: transaction_of_row_SomeD)
  have b: "account b = ''Zhuohan Li''"
    if "load_balances py fname (header # rows) = Inr bs" and "b \<in> set bs" for b
    using load_balances_set[OF that] by (auto dest: balance_of_row_SomeD)
  have ct: "load_transactions py fname cur (header # map (\<lambda>row. row[5 := g row]) rows)
       = load_transactions py fname cur (header # rows)"
    unfolding load_transactions_def load_transactions_try_def DictReader_rows_column
      enumerate_map_column transactions_loop_column
    by (simp add: fieldnames_def)
  have cb: "load_balances py fname (header # map (\<lambda>row. row[5 := g row]) rows)
       = load_balances py fname (header # rows)"
    unfolding load_balances_def DictReader_rows_column
      enumerate_map_column balances_loop_column
    by (simp add: fieldnames_def)
  from t b ct cb show ?thesis by simp
qed

theorem fixed_external_account_witness:
  "load_transactions sample_lib ''dwight.csv'' ''USD'' example_file = Inr example_entries
   \<and> account (example_entries ! 0) = ''Zhuohan Li''
   \<and> load_balances sample_lib ''dwight.csv'' example_file = Inr example_balances
   \<and> account (example_balances ! 0) = ''Zhuohan Li''
   \<and> load_transactions sample_lib ''dwight.csv'' ''USD''
       (expected_field_names # map (\<lambda>row. row[5 := ''Somebody'']) example_rows)
       = Inr example_entries"
proof -
  have f: "example_file = expected_field_names # example_rows"
    by (simp add: example_file_def expected_field_names_def)
  note c = fixed_external_account[of sample_lib "''dwight.csv''" "''USD''" expected_field_names
      example_rows example_entries "[]" example_balances "\<lambda>row. ''Somebody''"]
  have e: "example_entries ! 0 \<in> set example_entries"
    by (simp add: example_entries_def)
  have b: "example_balances ! 0 \<in> set example_balances"
    by (simp add: example_balances_def)
  from c load_transactions_example load_balances_example e b
  have "account (example_entries ! 0) = ''Zhuohan Li''"
    and "account (example_balances ! 0) = ''Zhuohan Li''"
    and "load_transactions sample_lib ''dwight.csv'' ''USD''
           (expected_field_names # map (\<lambda>row. row[5 := ''Somebody'']) example_rows)
           = Inr example_entries"
    unfolding f by auto
  with load_transactions_example load_balances_example show ?thesis by blast
qed

subsection \<open>The keys\<close>

text \<open>
  Claim C5. The two key functions agree: for a ledger posting, with the description
  and the date of its metadata, and a CSV entry whose account, date, amount and
  description are the same, \<^verbatim>\<open>_get_key_from_posting\<close> and \<^verbatim>\<open>_get_key_from_csv_entry\<close>
  return the same tuple of account, date, amount and description.
\<close>

theorem keys_agree:
  assumes "p_account posting = account x" and "posting_date = date x"
    and "p_units posting = amount x" and "desc = source_desc x"
  shows "get_key_from_posting entry posting source_postings desc posting_date
           = get_key_from_csv_entry x
         \<and> get_key_from_csv_entry x = (account x, date x, amount x, source_desc x)"
  using assms by (simp add: get_key_from_posting_def get_key_from_csv_entry_def)

theorem keys_agree_witness:
  "get_key_from_posting coffee_transaction coffee_posting (t_postings coffee_transaction)
       ''STARBUCKS'' 736186
     = get_key_from_csv_entry ((example_entries ! 1)\<lparr>account := ''Assets:Dwight''\<rparr>)
   \<and> get_key_from_csv_entry ((example_entries ! 1)\<lparr>account := ''Assets:Dwight''\<rparr>)
     = (''Assets:Dwight'', 736186, \<lparr>number = Finite (- (245 / 100)), currency = ''USD''\<rparr>,
        ''STARBUCKS'')"
proof -
  let ?x = "(example_entries ! 1)\<lparr>account := ''Assets:Dwight''\<rparr>"
  have 1: "p_account coffee_posting = account ?x"
    by (simp add: coffee_posting_def)
  have 2: "736186 = date ?x"
    by (simp add: example_entries_def)
  have 3: "p_units coffee_posting = amount ?x"
    by (simp add: coffee_posting_def example_entries_def)
  have 4: "''STARBUCKS'' = source_desc ?x"
    by (simp add: example_entries_def)
  from keys_agree[OF 1 2 3 4, of coffee_transaction "t_postings coffee_transaction"]
  show ?thesis by (simp add: example_entries_def)
qed

subsection \<open>What prepare computes\<close>

lemma fold_add_invalid_reference:
  "fold add_invalid_reference xs results =
     results\<lparr>invalid_references := invalid_references results @ xs\<rparr>"
  by (induction xs arbitrary: results) (simp_all add: add_invalid_reference_def)

lemma fold_add_warning:
  "fold (\<lambda>a. add_warning (f a)) xs results = results\<lparr>warnings := warnings results @ map f xs\<rparr>"
  by (induction xs arbitrary: results) (simp_all add: add_warning_def)

text \<open>
  The import results are added when each of them can be made, and then they are
  added in the order of the records.
\<close>

lemma add_import_results_InrD:
  assumes "add_import_results f xs results = Inr results'"
  shows "\<exists>rs. list_all2 (\<lambda>x r. f x = Inr r) xs rs
              \<and> results' = results\<lparr>pending := pending results @ rs\<rparr>"
  using assms
proof (induction xs arbitrary: results)
  case Nil
  then show ?case by simp
next
  case (Cons x xs)
  from Cons.prems obtain r where fx: "f x = Inr r"
    and rest: "add_import_results f xs (add_pending_entry r results) = Inr results'"
    by (auto split: sum.splits)
  from Cons.IH[OF rest] obtain rs where rs: "list_all2 (\<lambda>x r. f x = Inr r) xs rs"
    and res: "results' = (add_pending_entry r results)
                \<lparr>pending := pending (add_pending_entry r results) @ rs\<rparr>"
    by blast
  from fx rs have "list_all2 (\<lambda>x r. f x = Inr r) (x # xs) (r # rs)" by simp
  moreover from res have "results' = results\<lparr>pending := pending results @ r # rs\<rparr>"
    by (simp add: add_pending_entry_def)
  ultimately show ?case by blast
qed

lemma add_import_results_InrI:
  assumes "list_all2 (\<lambda>x r. f x = Inr r) xs rs"
  shows "add_import_results f xs results = Inr (results\<lparr>pending := pending results @ rs\<rparr>)"
  using assms
  by (induction xs rs arbitrary: results rule: list_all2_induct)
     (simp_all add: add_pending_entry_def)

lemma get_converted_fst_any:
  "fst (get_converted_dwight_entries m xs missing) = fst (get_converted_dwight_entries m xs missing')"
proof (induction xs arbitrary: missing missing')
  case Nil
  show ?case by simp
next
  case (Cons raw xs)
  show ?case
  proof (cases "map_of m (account raw)")
    case None
    then show ?thesis using Cons.IH by simp
  next
    case (Some acc)
    then show ?thesis using Cons.IH[of missing missing'] Cons.IH
      by (simp add: split_beta)
  qed
qed

lemma get_converted_fst:
  "fst (get_converted_dwight_entries m xs missing) = fst (get_converted_dwight_entries m xs [])"
  by (rule get_converted_fst_any)

lemma add_balances_eq:
  "add_balances bs results =
     (if \<forall>b\<in>set bs. 0 < date b + 1 \<and> date b + 1 \<le> MAXORDINAL
      then Inr (results\<lparr>pending := pending results
                  @ map (\<lambda>b. balance_import_result (date b + 1) b) bs\<rparr>)
      else Inl OverflowError)"
  by (induction bs arbitrary: results) (auto simp: add_days_def add_pending_entry_def)

lemma prepare_eq:
  "prepare py self journal results =
     (case reconcile self journal of
        (new_entries, unmatched) \<Rightarrow>
          (case add_import_results (make_import_result py) new_entries results of
             Inl e \<Rightarrow> Inl e
           | Inr results1 \<Rightarrow>
               add_balances (mapped_entries journal (balances self))
                 (results1\<lparr>invalid_references := invalid_references results1 @ map snd unmatched,
                           warnings := warnings results1 @ map NoAccountWarning
                             (snd (get_converted_dwight_entries
                                     (snd (get_account_mapping (accounts journal) ''dwight_id''))
                                     (dwight_entries self) []))\<rparr>)))"
proof -
  obtain a2i i2a where m: "get_account_mapping (accounts journal) ''dwight_id'' = (a2i, i2a)"
    by (cases "get_account_mapping (accounts journal) ''dwight_id''")
  obtain es ms where c: "get_converted_dwight_entries i2a (dwight_entries self) [] = (es, ms)"
    by (cases "get_converted_dwight_entries i2a (dwight_entries self) []")
  obtain bs ms' where b: "get_converted_dwight_entries i2a (balances self) ms = (bs, ms')"
    by (cases "get_converted_dwight_entries i2a (balances self) ms")
  have bs: "mapped_entries journal (balances self) = bs"
    using get_converted_fst[of i2a "balances self" ms] b m by (simp add: mapped_entries_def)
  have es: "mapped_entries journal (dwight_entries self) = es"
    using c m by (simp add: mapped_entries_def)
  obtain new U where r: "reconcile self journal = (new, U)"
    by (cases "reconcile self journal")
  with es m have r': "match_entries get_key_from_csv_entry es
       (matched_postings (set (map fst a2i)) get_key_from_posting (all_entries journal)) = (new, U)"
    by (simp add: reconcile_def mapped_accounts_def)
  show ?thesis
    unfolding prepare_def m r
    by (simp add: c b bs r'[simplified] get_pending_and_invalid_entries_def
          fold_add_invalid_reference fold_add_warning Let_def split: sum.splits)
qed

lemma prepare_InrD:
  assumes "prepare py self journal new_results = Inr results'"
    and "reconcile self journal = (new_entries, unmatched)"
  obtains drafts where "list_all2 (\<lambda>e r. make_import_result py e = Inr r) new_entries drafts"
    and "results' =
           \<lparr>pending = drafts
               @ map (\<lambda>b. balance_import_result (date b + 1) b)
                   (mapped_entries journal (balances self)),
            invalid_references = map snd unmatched,
            warnings = map NoAccountWarning
              (snd (get_converted_dwight_entries
                      (snd (get_account_mapping (accounts journal) ''dwight_id''))
                      (dwight_entries self) []))\<rparr>"
    and "\<forall>b\<in>set (mapped_entries journal (balances self)).
           0 < date b + 1 \<and> date b + 1 \<le> MAXORDINAL"
proof -
  from assms obtain results1 where
    1: "add_import_results (make_import_result py) new_entries new_results = Inr results1"
    and 2: "add_balances (mapped_entries journal (balances self))
              (results1\<lparr>invalid_references := invalid_references results1 @ map snd unmatched,
                        warnings := warnings results1 @ map NoAccountWarning
                          (snd (get_converted_dwight_entries
                                  (snd (get_account_mapping (accounts journal) ''dwight_id''))
                                  (dwight_entries self) []))\<rparr>) = Inr results'"
    by (auto simp: prepare_eq split: sum.splits)
  from add_import_results_InrD[OF 1] obtain drafts where
    d: "list_all2 (\<lambda>e r. make_import_result py e = Inr r) new_entries drafts"
    and r1: "results1 = new_results\<lparr>pending := pending new_results @ drafts\<rparr>"
    by blast
  from 2 have range: "\<forall>b\<in>set (mapped_entries journal (balances self)).
           0 < date b + 1 \<and> date b + 1 \<le> MAXORDINAL"
    by (auto simp: add_balances_eq split: if_splits)
  from range 2 r1 have res: "results' =
           \<lparr>pending = drafts
               @ map (\<lambda>b. balance_import_result (date b + 1) b)
                   (mapped_entries journal (balances self)),
            invalid_references = map snd unmatched,
            warnings = map NoAccountWarning
              (snd (get_converted_dwight_entries
                      (snd (get_account_mapping (accounts journal) ''dwight_id''))
                      (dwight_entries self) []))\<rparr>"
    by (auto simp: add_balances_eq new_results_def split: if_splits)
  from d res range show ?thesis by (rule that)
qed

text \<open>An import result that could be made is the one for the entry and some negated amount.\<close>

lemma make_import_result_InrD:
  assumes "make_import_result py e = Inr r"
  shows "\<exists>negated. neg py (number (amount e)) = Some negated
           \<and> r = import_result_with e \<lparr>number = negated, currency = currency (amount e)\<rparr>"
  using assms
  by (auto simp: make_import_result_def neg_amount_def split: option.splits sum.splits)

lemma drafts_are_transactions:
  assumes "list_all2 (\<lambda>e r. make_import_result py e = Inr r) new drafts" and "r \<in> set drafts"
  shows "\<exists>e a. e \<in> set new \<and> r = import_result_with e a"
proof -
  from assms(2) obtain i where "i < length drafts" and "r = drafts ! i"
    by (auto simp: in_set_conv_nth)
  with assms(1) have "new ! i \<in> set new" and "make_import_result py (new ! i) = Inr r"
    by (auto simp: list_all2_conv_all_nth)
  then show ?thesis by (blast dest: make_import_result_InrD)
qed

lemma prepare_pendingD:
  assumes "prepare py self journal new_results = Inr results'"
    and "reconcile self journal = (new_entries, unmatched)"
  obtains drafts where "list_all2 (\<lambda>e r. make_import_result py e = Inr r) new_entries drafts"
    and "pending results' = drafts
               @ map (\<lambda>b. balance_import_result (date b + 1) b)
                   (mapped_entries journal (balances self))"
proof -
  from prepare_InrD[OF assms] obtain drafts where
    d: "list_all2 (\<lambda>e r. make_import_result py e = Inr r) new_entries drafts"
    and res: "results' =
           \<lparr>pending = drafts
               @ map (\<lambda>b. balance_import_result (date b + 1) b)
                   (mapped_entries journal (balances self)),
            invalid_references = map snd unmatched,
            warnings = map NoAccountWarning
              (snd (get_converted_dwight_entries
                      (snd (get_account_mapping (accounts journal) ''dwight_id''))
                      (dwight_entries self) []))\<rparr>"
    by blast
  from res have p: "pending results' = drafts
               @ map (\<lambda>b. balance_import_result (date b + 1) b)
                   (mapped_entries journal (balances self))"
    by simp
  from d p show ?thesis by (rule that)
qed

subsection \<open>Converted entries and the engine\<close>

lemma get_converted_sound:
  assumes "e \<in> set (fst (get_converted_dwight_entries m xs missing))"
  shows "\<exists>raw\<in>set xs. \<exists>acc. map_of m (account raw) = Some acc \<and> acc \<noteq> []
           \<and> e = raw\<lparr>account := acc\<rparr>"
  using assms
  by (induction xs arbitrary: missing)
     (auto split: option.splits if_splits simp: split_beta)

lemma get_converted_complete:
  assumes "raw \<in> set xs" and "map_of m (account raw) = Some acc" and "acc \<noteq> []"
  shows "raw\<lparr>account := acc\<rparr> \<in> set (fst (get_converted_dwight_entries m xs missing))"
  using assms
  by (induction xs arbitrary: missing)
     (auto split: option.splits if_splits simp: split_beta)

lemma get_converted_missing:
  "set (snd (get_converted_dwight_entries m xs missing)) =
     set missing \<union> {account raw | raw. raw \<in> set xs
                        \<and> (map_of m (account raw) = None \<or> map_of m (account raw) = Some [])}"
  by (induction xs arbitrary: missing)
     (auto split: option.splits if_splits simp: split_beta)

lemma get_converted_distinct:
  "distinct missing \<Longrightarrow> distinct (snd (get_converted_dwight_entries m xs missing))"
  by (induction xs arbitrary: missing)
     (auto split: option.splits if_splits simp: split_beta)

lemma mapped_entries_account:
  assumes "e \<in> set (mapped_entries journal xs)"
  shows "account e \<in> mapped_accounts journal"
proof -
  let ?pairs = "account_ids ''dwight_id'' (accounts journal)"
  from assms obtain raw acc where
    m: "map_of (map (\<lambda>(acc, ident). (ident, acc)) ?pairs) (account raw) = Some acc"
    and e: "e = raw\<lparr>account := acc\<rparr>"
    unfolding mapped_entries_def get_account_mapping_def Let_def
    by (auto dest!: get_converted_sound)
  from m have "(account raw, acc) \<in> set (map (\<lambda>(acc, ident). (ident, acc)) ?pairs)"
    by (rule map_of_SomeD)
  then have "(acc, account raw) \<in> set ?pairs" by auto
  then have "acc \<in> fst ` set ?pairs" by force
  with e show ?thesis
    by (simp add: mapped_accounts_def get_account_mapping_def Let_def)
qed

lemma consume_append_Some:
  "consume k remaining = Some remaining' \<Longrightarrow> consume k (remaining @ extra) = Some (remaining' @ extra)"
  by (induction remaining arbitrary: remaining') (auto split: if_splits option.splits)

lemma consume_append_None:
  "consume k remaining = None \<Longrightarrow> consume k (remaining @ (k, v) # extra) = Some (remaining @ extra)"
  by (induction remaining) (auto split: if_splits option.splits)

lemma match_entries_subset:
  "match_entries key raws remaining = (new, unmatched) \<Longrightarrow> set new \<subseteq> set raws"
proof (induction raws arbitrary: remaining new unmatched)
  case Nil
  then show ?case by simp
next
  case (Cons raw raws)
  show ?case
  proof (cases "consume (key raw) remaining")
    case (Some remaining')
    with Cons.prems have "match_entries key raws remaining' = (new, unmatched)" by simp
    from Cons.IH[OF this] show ?thesis by auto
  next
    case None
    with Cons.prems obtain new' where
      rest: "match_entries key raws remaining = (new', unmatched)" and new: "new = raw # new'"
      by (auto split: prod.splits)
    from Cons.IH[OF rest] new show ?thesis by auto
  qed
qed

lemma match_entries_accepted:
  assumes "match_entries key raws remaining = (new, unmatched)"
    and "map fst accepted = map key new"
  shows "match_entries key raws (remaining @ accepted) = ([], unmatched)"
  using assms
proof (induction raws arbitrary: remaining new unmatched accepted)
  case Nil
  then show ?case by simp
next
  case (Cons raw raws)
  show ?case
  proof (cases "consume (key raw) remaining")
    case (Some remaining')
    with Cons.prems(1) have "match_entries key raws remaining' = (new, unmatched)" by simp
    from Cons.IH[OF this Cons.prems(2)] consume_append_Some[OF Some]
    show ?thesis by simp
  next
    case None
    with Cons.prems(1) obtain new' where
      rest: "match_entries key raws remaining = (new', unmatched)" and new: "new = raw # new'"
      by (auto split: prod.splits)
    from new Cons.prems(2) obtain v accepted' where
      acc: "accepted = (key raw, v) # accepted'" and acc': "map fst accepted' = map key new'"
      by (cases accepted) auto
    from consume_append_None[OF None] acc
    have "consume (key raw) (remaining @ accepted) = Some (remaining @ accepted')" by simp
    with Cons.IH[OF rest acc'] show ?thesis by simp
  qed
qed

lemma matched_postings_append:
  "matched_postings A kp (xs @ ys) = matched_postings A kp xs @ matched_postings A kp ys"
  by (induction A kp xs rule: matched_postings.induct) simp_all

lemma matched_postings_draft:
  assumes "account e \<in> A"
  shows "map fst (matched_postings A get_key_from_posting (ir_entries (import_result_with e a)))
           = [get_key_from_csv_entry e]"
  using assms
  by (simp add: import_result_with_def posting_key_def get_key_from_posting_def
        get_key_from_csv_entry_def)

lemma matched_postings_drafts:
  assumes "list_all2 (\<lambda>e r. \<exists>a. r = import_result_with e a) new drafts"
    and "\<forall>e\<in>set new. account e \<in> A"
  shows "map fst (matched_postings A get_key_from_posting (concat (map ir_entries drafts)))
           = map get_key_from_csv_entry new"
  using assms
  by (induction new drafts rule: list_all2_induct)
     (auto simp: matched_postings_append matched_postings_draft)

lemma matched_postings_balances:
  "matched_postings A kp (concat (map ir_entries (map (\<lambda>b. balance_import_result (f b) b) bs))) = []"
  by (induction bs) (simp_all add: balance_import_result_def)

subsection \<open>The draft of a new transaction\<close>




subsection \<open>Importing the same export again\<close>

text \<open>
  Claim C1 says that a second run on the same export and the same unmodified ledger
  has no pending entry and no invalid one. \<^verbatim>\<open>prepare\<close> reads the ledger and does not
  change it, so the second run on the unmodified ledger is the first run again: for
  the example it proposes two drafts and a balance and reports the refund as invalid.
  Even once these proposals are in the ledger, the run after that still proposes the
  balance and still reports the refund.
\<close>

theorem reimport_counterexample:
  "prepare sample_lib example_source example_journal new_results = Inr example_results
   \<and> pending example_results \<noteq> [] \<and> invalid_references example_results \<noteq> []
   \<and> prepare sample_lib example_source
       (example_journal\<lparr>all_entries := all_entries example_journal
          @ concat (map ir_entries (pending example_results))\<rparr>) new_results = Inr accepted_results
   \<and> pending accepted_results \<noteq> [] \<and> invalid_references accepted_results \<noteq> []"
proof -
  have 1: "prepare sample_lib example_source example_journal new_results = Inr example_results"
    by code_simp
  have 2: "prepare sample_lib example_source
       (example_journal\<lparr>all_entries := all_entries example_journal
          @ concat (map ir_entries (pending example_results))\<rparr>) new_results = Inr accepted_results"
    by code_simp
  show ?thesis using 1 2 by (simp add: example_results_def accepted_results_def)
qed

text \<open>
  Claim C1, amended. When the proposals of a run have been added to the ledger, which
  is otherwise unmodified, the next run on the same export succeeds and proposes no
  transaction draft: its pending entries are the balance proposals of the first run,
  which \<^verbatim>\<open>prepare\<close> issues on every run, and none when the source has no balances. Its
  invalid references and its warnings are those of the first run.
\<close>

theorem reimport_after_acceptance:
  assumes "prepare py self journal new_results = Inr results1"
  shows "\<exists>results2.
      prepare py self
        (journal\<lparr>all_entries := all_entries journal @ concat (map ir_entries (pending results1))\<rparr>)
        new_results = Inr results2
      \<and> pending results2 = filter (\<lambda>r. \<exists>b. ir_entries r = [Bal b]) (pending results1)
      \<and> (balances self = [] \<longrightarrow> pending results2 = [])
      \<and> invalid_references results2 = invalid_references results1
      \<and> warnings results2 = warnings results1"
proof -
  let ?journal' = "journal\<lparr>all_entries := all_entries journal
                      @ concat (map ir_entries (pending results1))\<rparr>"
  let ?bs = "mapped_entries journal (balances self)"
  let ?proposals = "map (\<lambda>b. balance_import_result (date b + 1) b) ?bs"
  let ?A = "mapped_accounts journal"
  obtain new unmatched where r: "reconcile self journal = (new, unmatched)"
    by (cases "reconcile self journal")
  from prepare_InrD[OF assms r] obtain drafts where
    d: "list_all2 (\<lambda>e r. make_import_result py e = Inr r) new drafts"
    and res1: "results1 =
           \<lparr>pending = drafts @ ?proposals,
            invalid_references = map snd unmatched,
            warnings = map NoAccountWarning
              (snd (get_converted_dwight_entries
                      (snd (get_account_mapping (accounts journal) ''dwight_id''))
                      (dwight_entries self) []))\<rparr>"
    and range: "\<forall>b\<in>set ?bs. 0 < date b + 1 \<and> date b + 1 \<le> MAXORDINAL"
    by blast
  have pend1: "pending results1 = drafts @ ?proposals"
    by (simp add: res1)
  from d have d': "list_all2 (\<lambda>e r. \<exists>a. r = import_result_with e a) new drafts"
    by (rule list_all2_mono) (blast dest: make_import_result_InrD)
  have "set new \<subseteq> set (mapped_entries journal (dwight_entries self))"
    using r unfolding reconcile_def by (rule match_entries_subset)
  then have acc: "\<forall>e\<in>set new. account e \<in> ?A"
    by (auto dest: mapped_entries_account)
  have keys: "map fst (matched_postings ?A get_key_from_posting
                         (concat (map ir_entries (pending results1))))
                = map get_key_from_csv_entry new"
  proof -
    have "matched_postings ?A get_key_from_posting (concat (map ir_entries (pending results1)))
            = matched_postings ?A get_key_from_posting (concat (map ir_entries drafts))
              @ matched_postings ?A get_key_from_posting (concat (map ir_entries ?proposals))"
      unfolding pend1 by (simp only: map_append concat_append matched_postings_append)
    also have "\<dots> = matched_postings ?A get_key_from_posting (concat (map ir_entries drafts))"
      by (simp only: matched_postings_balances append_Nil2)
    finally show ?thesis
      by (simp only: matched_postings_drafts[OF d' acc])
  qed
  define journal' where
    "journal' = journal\<lparr>all_entries := all_entries journal
                  @ concat (map ir_entries (pending results1))\<rparr>"
  have same: "mapped_entries journal' = mapped_entries journal"
    "mapped_accounts journal' = mapped_accounts journal"
    "accounts journal' = accounts journal"
    by (simp_all add: journal'_def mapped_entries_def mapped_accounts_def fun_eq_iff)
  have entries': "all_entries journal' = all_entries journal
                    @ concat (map ir_entries (pending results1))"
    by (simp add: journal'_def)
  have r': "reconcile self journal' = ([], unmatched)"
    using match_entries_accepted[OF r[unfolded reconcile_def] keys]
    by (simp only: reconcile_def same entries' matched_postings_append)
  let ?results2 = "\<lparr>pending = ?proposals, invalid_references = map snd unmatched,
                     warnings = warnings results1\<rparr>"
  have w1: "warnings results1 = map NoAccountWarning
              (snd (get_converted_dwight_entries
                      (snd (get_account_mapping (accounts journal) ''dwight_id''))
                      (dwight_entries self) []))"
    by (simp add: res1)
  have p2: "prepare py self journal' new_results = Inr ?results2"
    using range
    by (simp add: prepare_eq[of py self journal'] r' same add_balances_eq new_results_def w1)
  have no_bal: "\<not> (\<exists>b. ir_entries x = [Bal b])" if "x \<in> set drafts" for x
  proof -
    from drafts_are_transactions[OF d that] obtain e a where "x = import_result_with e a"
      by blast
    then show ?thesis
      by (simp add: import_result_with_def Let_def)
  qed
  have drafts: "filter (\<lambda>r. \<exists>b. ir_entries r = [Bal b]) drafts = []"
    unfolding filter_empty_conv using no_bal by blast
  have props: "filter (\<lambda>r. \<exists>b. ir_entries r = [Bal b]) ?proposals = ?proposals"
    by (simp add: filter_id_conv balance_import_result_def)
  have f: "pending ?results2 = filter (\<lambda>r. \<exists>b. ir_entries r = [Bal b]) (pending results1)"
    unfolding pend1 filter_append drafts props by simp
  have e: "balances self = [] \<longrightarrow> pending ?results2 = []"
    by (simp add: mapped_entries_def)
  have i: "invalid_references ?results2 = invalid_references results1"
    by (simp add: res1)
  from p2 f e i show ?thesis
    unfolding journal'_def by (intro exI[of _ ?results2]) simp
qed

theorem reimport_after_acceptance_witness:
  "prepare sample_lib transactions_source example_journal new_results
     = Inr (example_results\<lparr>pending := take 2 (pending example_results)\<rparr>)
   \<and> prepare sample_lib transactions_source
       (example_journal\<lparr>all_entries := all_entries example_journal
          @ concat (map ir_entries (take 2 (pending example_results)))\<rparr>) new_results
     = Inr (example_results\<lparr>pending := []\<rparr>)"
proof -
  let ?results1 = "example_results\<lparr>pending := take 2 (pending example_results)\<rparr>"
  have 1: "prepare sample_lib transactions_source example_journal new_results = Inr ?results1"
    by code_simp
  have b: "balances transactions_source = []"
    by (simp add: transactions_source_def)
  from reimport_after_acceptance[OF 1] b obtain results2 where
    p: "prepare sample_lib transactions_source
       (example_journal\<lparr>all_entries := all_entries example_journal
          @ concat (map ir_entries (pending ?results1))\<rparr>) new_results = Inr results2"
    and "pending results2 = []"
    and "invalid_references results2 = invalid_references ?results1"
    and "warnings results2 = warnings ?results1"
    by blast
  then have "results2 = example_results\<lparr>pending := []\<rparr>"
    by (intro SourceResults.equality) simp_all
  with p 1 show ?thesis by simp
qed

subsection \<open>Unmapped external accounts\<close>

text \<open>
  The warnings of a run are one for each external account of the transactions that
  the ledger does not map, without repetition.
\<close>

lemma prepare_warnings:
  assumes "prepare py self journal new_results = Inr results'"
  shows "distinct (warnings results')"
    and "set (warnings results') =
           {NoAccountWarning (account raw) | raw. raw \<in> set (dwight_entries self)
              \<and> (map_of (snd (get_account_mapping (accounts journal) ''dwight_id'')) (account raw) = None
                 \<or> map_of (snd (get_account_mapping (accounts journal) ''dwight_id'')) (account raw)
                      = Some [])}"
proof -
  obtain new unmatched where r: "reconcile self journal = (new, unmatched)"
    by (cases "reconcile self journal")
  from prepare_InrD[OF assms r] obtain drafts where
    "results' =
           \<lparr>pending = drafts
               @ map (\<lambda>b. balance_import_result (date b + 1) b)
                   (mapped_entries journal (balances self)),
            invalid_references = map snd unmatched,
            warnings = map NoAccountWarning
              (snd (get_converted_dwight_entries
                      (snd (get_account_mapping (accounts journal) ''dwight_id''))
                      (dwight_entries self) []))\<rparr>"
    by blast
  then have res: "warnings results' = map NoAccountWarning
              (snd (get_converted_dwight_entries
                      (snd (get_account_mapping (accounts journal) ''dwight_id''))
                      (dwight_entries self) []))"
    by simp
  show "distinct (warnings results')"
    by (simp add: res distinct_map get_converted_distinct inj_on_def)
  show "set (warnings results') =
           {NoAccountWarning (account raw) | raw. raw \<in> set (dwight_entries self)
              \<and> (map_of (snd (get_account_mapping (accounts journal) ''dwight_id'')) (account raw) = None
                 \<or> map_of (snd (get_account_mapping (accounts journal) ''dwight_id'')) (account raw)
                      = Some [])}"
    by (auto simp: res get_converted_missing)
qed

text \<open>
  Claim C6 asks for one warning for each unmapped external account, of transactions
  and of balances. \<^verbatim>\<open>prepare\<close> adds the warnings before it converts the balances, so
  the accounts found missing there are never reported: an export with a balance row
  only, on a ledger that maps no account, gives no warning at all, where the example
  export, which has transactions, gives the one warning.
\<close>

theorem unmapped_balance_without_warning:
  "DwightSource_init sample_lib example_files ''balance.csv'' (Some ''balance.csv'')
     = Inr balance_only_source
   \<and> prepare sample_lib balance_only_source unmapped_journal new_results
     = Inr \<lparr>pending = [], invalid_references = [], warnings = []\<rparr>
   \<and> prepare sample_lib example_source unmapped_journal new_results
     = Inr \<lparr>pending = [], invalid_references = [], warnings = [NoAccountWarning ''Zhuohan Li'']\<rparr>"
  by code_simp

subsection \<open>The date of a balance proposal\<close>

text \<open>
  Claim C8. For a balance record with snapshot date \<open>D\<close> whose account is mapped,
  \<^verbatim>\<open>prepare\<close> proposes an import result dated \<open>D + 1\<close> holding a balance assertion
  dated \<open>D + 1\<close>, and every balance assertion among its proposals is dated, with its
  proposal, one day after the snapshot date of a loaded balance record. The run
  succeeds whenever the day after each snapshot date exists, that is, no balance is
  dated \<^verbatim>\<open>date.max\<close>, and the amounts of the transactions can be negated for their
  drafts.
\<close>

theorem balance_proposal_date:
  "((\<forall>raw\<in>set (balances self). 0 < date raw + 1 \<and> date raw + 1 \<le> MAXORDINAL)
      \<and> (\<forall>e\<in>set (dwight_entries self). neg py (number (amount e)) \<noteq> None)
      \<longrightarrow> (\<exists>results. prepare py self journal new_results = Inr results))
   \<and> (prepare py self journal new_results = Inr results' \<longrightarrow>
        (\<forall>r\<in>set (pending results'). \<forall>b. Bal b \<in> set (ir_entries r) \<longrightarrow>
           (\<exists>raw\<in>set (balances self).
              ir_date r = date raw + 1 \<and> b_date b = date raw + 1 \<and> b_amount b = amount raw))
      \<and> (\<forall>raw\<in>set (balances self). \<forall>acc.
           map_of (snd (get_account_mapping (accounts journal) ''dwight_id'')) (account raw) = Some acc
             \<and> acc \<noteq> [] \<longrightarrow>
           (\<exists>r\<in>set (pending results').
              ir_date r = date raw + 1 \<and> ir_info r = get_info raw
              \<and> ir_entries r =
                  [Bal \<lparr>b_account = acc, b_date = date raw + 1, b_meta = None,
                        b_amount = amount raw, b_tolerance = None, b_diff_amount = None\<rparr>])))"
proof (intro conjI impI)
  let ?bs = "mapped_entries journal (balances self)"
  assume h: "(\<forall>raw\<in>set (balances self). 0 < date raw + 1 \<and> date raw + 1 \<le> MAXORDINAL)
      \<and> (\<forall>e\<in>set (dwight_entries self). neg py (number (amount e)) \<noteq> None)"
  have range: "\<forall>b\<in>set ?bs. 0 < date b + 1 \<and> date b + 1 \<le> MAXORDINAL"
  proof
    fix b assume "b \<in> set ?bs"
    then obtain raw acc where "raw \<in> set (balances self)" and "b = raw\<lparr>account := acc\<rparr>"
      unfolding mapped_entries_def by (auto dest!: get_converted_sound)
    with h show "0 < date b + 1 \<and> date b + 1 \<le> MAXORDINAL" by simp
  qed
  obtain new unmatched where r: "reconcile self journal = (new, unmatched)"
    by (cases "reconcile self journal")
  have "set new \<subseteq> set (mapped_entries journal (dwight_entries self))"
    using r unfolding reconcile_def by (rule match_entries_subset)
  then have negs: "\<forall>e\<in>set new. neg py (number (amount e)) \<noteq> None"
  proof (intro ballI)
    fix e assume "set new \<subseteq> set (mapped_entries journal (dwight_entries self))" and "e \<in> set new"
    then obtain raw acc where "raw \<in> set (dwight_entries self)" and "e = raw\<lparr>account := acc\<rparr>"
      unfolding mapped_entries_def by (auto dest!: get_converted_sound)
    with h show "neg py (number (amount e)) \<noteq> None" by simp
  qed
  let ?draft = "\<lambda>e. import_result_with e
                  \<lparr>number = the (neg py (number (amount e))), currency = currency (amount e)\<rparr>"
  have draft: "make_import_result py e = Inr (?draft e)" if "e \<in> set new" for e
  proof -
    from negs that obtain negated where "neg py (number (amount e)) = Some negated"
      by blast
    then show ?thesis
      by (simp add: make_import_result_def neg_amount_def)
  qed
  have "list_all2 (\<lambda>e r. make_import_result py e = Inr r) new (map ?draft new)"
    unfolding list_all2_conv_all_nth using draft by simp
  then have "add_import_results (make_import_result py) new new_results
               = Inr (new_results\<lparr>pending := pending new_results @ map ?draft new\<rparr>)"
    by (rule add_import_results_InrI)
  with range r show "\<exists>results. prepare py self journal new_results = Inr results"
    by (simp add: prepare_eq add_balances_eq)
next
  assume p: "prepare py self journal new_results = Inr results'"
  obtain new unmatched where r: "reconcile self journal = (new, unmatched)"
    by (cases "reconcile self journal")
  from prepare_pendingD[OF p r] obtain drafts where
    d: "list_all2 (\<lambda>e r. make_import_result py e = Inr r) new drafts"
    and res: "pending results' = drafts @ map (\<lambda>b. balance_import_result (date b + 1) b)
                                            (mapped_entries journal (balances self))"
    by blast
  show "\<forall>r\<in>set (pending results'). \<forall>b. Bal b \<in> set (ir_entries r) \<longrightarrow>
           (\<exists>raw\<in>set (balances self).
              ir_date r = date raw + 1 \<and> b_date b = date raw + 1 \<and> b_amount b = amount raw)"
  proof (intro ballI allI impI)
    fix x b assume x: "x \<in> set (pending results')" and b: "Bal b \<in> set (ir_entries x)"
    from x res have "x \<in> set drafts
        \<or> (\<exists>e\<in>set (mapped_entries journal (balances self)). x = balance_import_result (date e + 1) e)"
      by auto
    moreover have "x \<notin> set drafts"
    proof
      assume "x \<in> set drafts"
      from drafts_are_transactions[OF d this] b show False
        by (auto simp: import_result_with_def)
    qed
    ultimately obtain e where e: "e \<in> set (mapped_entries journal (balances self))"
      and xe: "x = balance_import_result (date e + 1) e"
      by blast
    from e obtain raw acc where raw: "raw \<in> set (balances self)" and "e = raw\<lparr>account := acc\<rparr>"
      unfolding mapped_entries_def by (auto dest!: get_converted_sound)
    with xe b have "ir_date x = date raw + 1 \<and> b_date b = date raw + 1 \<and> b_amount b = amount raw"
      by (auto simp: balance_import_result_def)
    with raw show "\<exists>raw\<in>set (balances self).
              ir_date x = date raw + 1 \<and> b_date b = date raw + 1 \<and> b_amount b = amount raw"
      by blast
  qed
next
  assume p: "prepare py self journal new_results = Inr results'"
  obtain new unmatched where r: "reconcile self journal = (new, unmatched)"
    by (cases "reconcile self journal")
  from prepare_pendingD[OF p r] obtain drafts where
    res: "pending results' = drafts @ map (\<lambda>b. balance_import_result (date b + 1) b)
                                            (mapped_entries journal (balances self))"
    by blast
  show "\<forall>raw\<in>set (balances self). \<forall>acc.
           map_of (snd (get_account_mapping (accounts journal) ''dwight_id'')) (account raw) = Some acc
             \<and> acc \<noteq> [] \<longrightarrow>
           (\<exists>r\<in>set (pending results').
              ir_date r = date raw + 1 \<and> ir_info r = get_info raw
              \<and> ir_entries r =
                  [Bal \<lparr>b_account = acc, b_date = date raw + 1, b_meta = None,
                        b_amount = amount raw, b_tolerance = None, b_diff_amount = None\<rparr>])"
  proof (intro ballI allI impI)
    fix raw acc assume raw: "raw \<in> set (balances self)"
      and "map_of (snd (get_account_mapping (accounts journal) ''dwight_id'')) (account raw) = Some acc
             \<and> acc \<noteq> []"
    then have "raw\<lparr>account := acc\<rparr> \<in> set (mapped_entries journal (balances self))"
      unfolding mapped_entries_def by (auto intro: get_converted_complete)
    then have "balance_import_result (date raw + 1) (raw\<lparr>account := acc\<rparr>) \<in> set (pending results')"
      using res by force
    then show "\<exists>r\<in>set (pending results').
              ir_date r = date raw + 1 \<and> ir_info r = get_info raw
              \<and> ir_entries r =
                  [Bal \<lparr>b_account = acc, b_date = date raw + 1, b_meta = None,
                        b_amount = amount raw, b_tolerance = None, b_diff_amount = None\<rparr>]"
      by (rule rev_bexI) (simp add: balance_import_result_def get_info_def)
  qed
qed

theorem balance_proposal_date_witness:
  "prepare sample_lib example_source example_journal new_results = Inr example_results
   \<and> (\<exists>r\<in>set (pending example_results).
         ir_date r = 736186 + 1 \<and> ir_info r = get_info (example_balances ! 0)
         \<and> ir_entries r =
             [Bal \<lparr>b_account = ''Assets:Dwight'', b_date = 736186 + 1, b_meta = None,
                   b_amount = \<lparr>number = Finite (4951 / 10), currency = ''EUR''\<rparr>,
                   b_tolerance = None,
                   b_diff_amount = None\<rparr>])"
proof -
  have p: "prepare sample_lib example_source example_journal new_results = Inr example_results"
    by code_simp
  have raw: "example_balances ! 0 \<in> set (balances example_source)"
    by (simp add: example_source_def example_balances_def)
  have m: "map_of (snd (get_account_mapping (accounts example_journal) ''dwight_id''))
             (account (example_balances ! 0)) = Some ''Assets:Dwight'' \<and> ''Assets:Dwight'' \<noteq> []"
    by (simp add: get_account_mapping_def example_journal_def example_balances_def)
  from balance_proposal_date[of example_source sample_lib example_journal example_results] p raw m
  have "\<exists>r\<in>set (pending example_results).
         ir_date r = date (example_balances ! 0) + 1 \<and> ir_info r = get_info (example_balances ! 0)
         \<and> ir_entries r =
             [Bal \<lparr>b_account = ''Assets:Dwight'', b_date = date (example_balances ! 0) + 1,
                   b_meta = None, b_amount = amount (example_balances ! 0), b_tolerance = None,
                   b_diff_amount = None\<rparr>]"
    by blast
  with p show ?thesis by (simp add: example_balances_def)
qed

end
